theory Spec2Isabelle
  imports Complex_Main "HOL-Library.Word"
begin

section \<open>Python values\<close>

text \<open>
  The Lambda function of \<^verbatim>\<open>lambda_function.py\<close> works on values that came out of
  \<^verbatim>\<open>json.loads\<close>: the event that the gateway hands to \<^verbatim>\<open>handler\<close> and the payload of
  the ID token. Such a value is \<^verbatim>\<open>None\<close>, a \<^verbatim>\<open>bool\<close>, an \<^verbatim>\<open>int\<close>, a \<^verbatim>\<open>float\<close>, a \<^verbatim>\<open>str\<close>,
  a \<^verbatim>\<open>list\<close> or a \<^verbatim>\<open>dict\<close> with \<^verbatim>\<open>str\<close> keys.

  A Python \<^verbatim>\<open>str\<close> is a sequence of Unicode code points, and \<^verbatim>\<open>len\<close> counts code
  points: it is modelled as a list of natural numbers. \<open>lit\<close> embeds an ASCII literal.
  A \<^verbatim>\<open>bytes\<close> object is a list of 8-bit words. A \<^verbatim>\<open>dict\<close> is an association list in
  insertion order; a Python dict has no two entries with the same key, and a lookup
  reads the first entry of a key.
\<close>

type_synonym pystr = "nat list"

type_synonym byte = "8 word"

definition lit :: "string \<Rightarrow> pystr" where
  "lit s = map of_char s"

text \<open>The code points of the three characters that the program names.\<close>

abbreviation chr_dot :: nat where
  "chr_dot \<equiv> 46"

abbreviation chr_comma :: nat where
  "chr_comma \<equiv> 44"

abbreviation chr_equals :: nat where
  "chr_equals \<equiv> 61"

datatype pyfloat = Finite rat | PosInf | NegInf | NaN

datatype json =
    JNull
  | JBool bool
  | JInt int
  | JFloat pyfloat
  | JStr pystr
  | JList "json list"
  | JObj "(pystr \<times> json) list"

text \<open>
  Every exception met in this program is an instance of \<^verbatim>\<open>Exception\<close>, so each
  \<^verbatim>\<open>except Exception\<close> clause catches every value of \<open>exn\<close>. A computation that may
  raise returns \<open>exn + 'a\<close>, with \<open>Inl\<close> for the exception.
\<close>

datatype exn =
    AttributeError
  | ValueError
  | BinasciiError
  | UnicodeDecodeError
  | JSONDecodeError
  | RecursionError

text \<open>
  A call of the process-wide logger appends one entry: the level and the fixed text of
  the message (the interpolated part is left out).
\<close>

datatype level = INFO | WARNING | ERROR

type_synonym log_entry = "level \<times> string"

text \<open>Truth value testing, as \<^verbatim>\<open>not x\<close> and \<^verbatim>\<open>if x\<close> do it.\<close>

fun truthy :: "json \<Rightarrow> bool" where
  "truthy JNull = False"
| "truthy (JBool b) = b"
| "truthy (JInt i) = (i \<noteq> 0)"
| "truthy (JFloat f) = (f \<noteq> Finite 0)"
| "truthy (JStr s) = (s \<noteq> [])"
| "truthy (JList xs) = (xs \<noteq> [])"
| "truthy (JObj kvs) = (kvs \<noteq> [])"

subsection \<open>Methods of \<^verbatim>\<open>str\<close>\<close>

text \<open>\<^verbatim>\<open>s.split(sep)\<close> for a separator of one character: never an empty list.\<close>

fun str_split :: "nat \<Rightarrow> pystr \<Rightarrow> pystr list" where
  "str_split sep [] = [[]]"
| "str_split sep (c # cs) =
     (if c = sep then [] # str_split sep cs
      else (case str_split sep cs of
              [] \<Rightarrow> [[c]]
            | p # ps \<Rightarrow> (c # p) # ps))"

text \<open>The code points for which \<^verbatim>\<open>str.isspace\<close> holds; \<^verbatim>\<open>s.strip()\<close> removes them at both ends.\<close>

definition isspace :: "nat \<Rightarrow> bool" where
  "isspace c =
     ((9 \<le> c \<and> c \<le> 13) \<or> (28 \<le> c \<and> c \<le> 32) \<or> c = 0x85 \<or> c = 0xA0 \<or> c = 0x1680
      \<or> (0x2000 \<le> c \<and> c \<le> 0x200A) \<or> c = 0x2028 \<or> c = 0x2029 \<or> c = 0x202F
      \<or> c = 0x205F \<or> c = 0x3000)"

definition str_strip :: "pystr \<Rightarrow> pystr" where
  "str_strip s = rev (dropWhile isspace (rev (dropWhile isspace s)))"

text \<open>
  \<^verbatim>\<open>s.lower()\<close>. The upper-case ASCII letters and the Kelvin sign (U+212A) are the only
  code points whose lower-casing is made of ASCII characters. Every other code point
  lower-cases to text with a character outside ASCII; it is kept as it is here, which
  leaves the comparison with an ASCII literal, the only use of the result, unchanged.
\<close>

definition lower_cp :: "nat \<Rightarrow> nat" where
  "lower_cp c = (if 65 \<le> c \<and> c \<le> 90 then c + 32 else if c = 0x212A then 107 else c)"

definition str_lower :: "pystr \<Rightarrow> pystr" where
  "str_lower s = map lower_cp s"

subsection \<open>Attribute access on a value\<close>

text \<open>
  Of the values above only a \<^verbatim>\<open>str\<close> has \<^verbatim>\<open>split\<close> and only a \<^verbatim>\<open>dict\<close> has \<^verbatim>\<open>get\<close> and
  \<^verbatim>\<open>items\<close>; on any other value the attribute access raises \<^verbatim>\<open>AttributeError\<close>.
\<close>

definition py_split :: "json \<Rightarrow> nat \<Rightarrow> exn + pystr list" where
  "py_split v sep = (case v of JStr s \<Rightarrow> Inr (str_split sep s) | _ \<Rightarrow> Inl AttributeError)"

text \<open>\<^verbatim>\<open>d.get(k)\<close> on a dict: the value, or \<^verbatim>\<open>None\<close>.\<close>

definition dget :: "(pystr \<times> json) list \<Rightarrow> pystr \<Rightarrow> json" where
  "dget kvs k = (case map_of kvs k of Some v \<Rightarrow> v | None \<Rightarrow> JNull)"

text \<open>\<^verbatim>\<open>v.get(k, dflt)\<close> on any value.\<close>

definition py_get :: "json \<Rightarrow> pystr \<Rightarrow> json \<Rightarrow> exn + json" where
  "py_get v k dflt =
     (case v of
        JObj kvs \<Rightarrow> Inr (case map_of kvs k of Some x \<Rightarrow> x | None \<Rightarrow> dflt)
      | _ \<Rightarrow> Inl AttributeError)"

definition py_items :: "json \<Rightarrow> exn + (pystr \<times> json) list" where
  "py_items v = (case v of JObj kvs \<Rightarrow> Inr kvs | _ \<Rightarrow> Inl AttributeError)"

section \<open>The standard library\<close>

text \<open>
  The three library functions that \<^verbatim>\<open>decode_jwt_payload\<close> calls are a parameter of the
  model: \<^verbatim>\<open>base64.urlsafe_b64decode\<close>, \<^verbatim>\<open>bytes.decode("utf-8")\<close> and \<^verbatim>\<open>json.loads\<close>.
  What is proved for every \<open>stdlib\<close> holds whatever these functions return or raise.
\<close>

record stdlib =
  urlsafe_b64decode :: "pystr \<Rightarrow> exn + byte list"
  bytes_decode_utf8 :: "byte list \<Rightarrow> exn + pystr"
  json_loads :: "pystr \<Rightarrow> exn + json"

section \<open>\<^verbatim>\<open>decode_jwt_payload\<close>\<close>

text \<open>Lines 22 to 24: the padding added to the second part.\<close>

definition pad_payload_part :: "pystr \<Rightarrow> pystr" where
  "pad_payload_part payload_part =
     (let padding = 4 - length payload_part mod 4
      in if padding \<noteq> 4 then payload_part @ replicate padding chr_equals else payload_part)"

text \<open>Lines 27 and 28: decoding the padded part.\<close>

definition loads_payload :: "stdlib \<Rightarrow> pystr \<Rightarrow> exn + json" where
  "loads_payload L payload_part =
     (case urlsafe_b64decode L payload_part of
        Inl e \<Rightarrow> Inl e
      | Inr decoded_bytes \<Rightarrow>
          (case bytes_decode_utf8 L decoded_bytes of
             Inl e \<Rightarrow> Inl e
           | Inr text \<Rightarrow> json_loads L text))"

text \<open>The body of the \<^verbatim>\<open>try\<close> block, lines 13 to 30.\<close>

definition decode_jwt_payload_try :: "stdlib \<Rightarrow> json \<Rightarrow> (exn + json) \<times> log_entry list" where
  "decode_jwt_payload_try L token =
     (case py_split token chr_dot of
        Inl e \<Rightarrow> (Inl e, [])
      | Inr parts \<Rightarrow>
          if length parts \<noteq> 3 then (Inr JNull, [(ERROR, ''Invalid JWT token format'')])
          else (loads_payload L (pad_payload_part (parts ! 1)), []))"

text \<open>The function: the \<^verbatim>\<open>except Exception\<close> clause logs and returns \<^verbatim>\<open>None\<close>.\<close>

definition decode_jwt_payload :: "stdlib \<Rightarrow> json \<Rightarrow> (exn + json) \<times> log_entry list" where
  "decode_jwt_payload L token =
     (case decode_jwt_payload_try L token of
        (Inl e, lg) \<Rightarrow> (Inr JNull, lg @ [(ERROR, ''Error decoding JWT payload: '')])
      | (Inr payload, lg) \<Rightarrow> (Inr payload, lg))"

section \<open>\<^verbatim>\<open>get_user_info_from_token\<close>\<close>

text \<open>Lines 44 to 48: the loop over \<^verbatim>\<open>headers.items()\<close>, left by \<^verbatim>\<open>break\<close> at the first match.\<close>

fun find_id_token :: "(pystr \<times> json) list \<Rightarrow> json \<Rightarrow> json" where
  "find_id_token [] id_token = id_token"
| "find_id_token ((header_name, header_value) # rest) id_token =
     (if str_lower header_name = lit ''x-cognito-id-token'' then header_value
      else find_id_token rest id_token)"

text \<open>Lines 41 to 48: the value of \<^verbatim>\<open>id_token\<close> after the loop.\<close>

definition locate_id_token :: "json \<Rightarrow> exn + json" where
  "locate_id_token event =
     (case py_get event (lit ''headers'') (JObj []) of
        Inl e \<Rightarrow> Inl e
      | Inr headers \<Rightarrow>
          (case py_items headers of
             Inl e \<Rightarrow> Inl e
           | Inr items \<Rightarrow> Inr (find_id_token items JNull)))"

text \<open>Lines 62 to 70.\<close>

definition token_user_info :: "(pystr \<times> json) list \<Rightarrow> json" where
  "token_user_info token_payload =
     JObj [(lit ''username'', dget token_payload (lit ''cognito:username'')),
           (lit ''email'', dget token_payload (lit ''email'')),
           (lit ''email_verified'', dget token_payload (lit ''email_verified'')),
           (lit ''sub'', dget token_payload (lit ''sub'')),
           (lit ''aud'', dget token_payload (lit ''aud'')),
           (lit ''iss'', dget token_payload (lit ''iss'')),
           (lit ''token_use'', dget token_payload (lit ''token_use''))]"

definition possible_group_claims :: "pystr list" where
  "possible_group_claims =
     [lit ''cognito:groups'', lit ''groups'', lit ''custom:groups'', lit ''memberOf'', lit ''roles'']"

text \<open>Lines 82 to 90: the loop over the claim names, left by \<^verbatim>\<open>break\<close> at the first name present.\<close>

fun scan_group_claims :: "pystr list \<Rightarrow> (pystr \<times> json) list \<Rightarrow> json list \<Rightarrow> json list" where
  "scan_group_claims [] token_payload groups = groups"
| "scan_group_claims (claim_name # rest) token_payload groups =
     (case map_of token_payload claim_name of
        Some claim_value \<Rightarrow>
          (case claim_value of
             JList xs \<Rightarrow> groups @ xs
           | JStr s \<Rightarrow> groups @ map (\<lambda>g. JStr (str_strip g)) (str_split chr_comma s)
           | _ \<Rightarrow> groups)
      | None \<Rightarrow> scan_group_claims rest token_payload groups)"

text \<open>
  The body of the \<^verbatim>\<open>try\<close> block, lines 41 to 95. The first \<^verbatim>\<open>token_payload.get\<close> of line
  63 raises when the payload is no dict; on a dict none of lines 62 to 90 raises.
\<close>

definition get_user_info_from_token_try ::
  "stdlib \<Rightarrow> json \<Rightarrow> (exn + json \<times> json list) \<times> log_entry list" where
  "get_user_info_from_token_try L event =
     (case locate_id_token event of
        Inl e \<Rightarrow> (Inl e, [])
      | Inr id_token \<Rightarrow>
          if \<not> truthy id_token
          then (Inr (JNull, []), [(WARNING, ''No X-Cognito-Id-Token header found'')])
          else
            (case decode_jwt_payload L id_token of
               (Inl e, lg) \<Rightarrow> (Inl e, lg)
             | (Inr token_payload, lg) \<Rightarrow>
                 if \<not> truthy token_payload then (Inr (JNull, []), lg)
                 else
                   (case token_payload of
                      JObj d \<Rightarrow>
                        (Inr (token_user_info d, scan_group_claims possible_group_claims d []),
                         lg @ [(INFO, ''Token payload: ''), (INFO, ''User info: ''),
                               (INFO, ''User groups: '')])
                    | _ \<Rightarrow> (Inl AttributeError, lg @ [(INFO, ''Token payload: '')]))))"

definition get_user_info_from_token ::
  "stdlib \<Rightarrow> json \<Rightarrow> (exn + json \<times> json list) \<times> log_entry list" where
  "get_user_info_from_token L event =
     (case get_user_info_from_token_try L event of
        (Inl e, lg) \<Rightarrow>
          (Inr (JNull, []), lg @ [(ERROR, ''Error extracting user info from token: '')])
      | (Inr r, lg) \<Rightarrow> (Inr r, lg))"

section \<open>\<^verbatim>\<open>get_user_from_cognito_context\<close>\<close>

text \<open>Lines 109 to 114, on an \<^verbatim>\<open>identity\<close> that is a dict.\<close>

definition context_user_info :: "(pystr \<times> json) list \<Rightarrow> json" where
  "context_user_info identity =
     JObj [(lit ''cognito_identity_id'', dget identity (lit ''cognitoIdentityId'')),
           (lit ''cognito_auth_provider'', dget identity (lit ''cognitoAuthenticationProvider'')),
           (lit ''source_ip'', dget identity (lit ''sourceIp'')),
           (lit ''user_agent'', dget identity (lit ''userAgent''))]"

text \<open>The body of the \<^verbatim>\<open>try\<close> block, lines 105 to 117.\<close>

definition get_user_from_cognito_context_try ::
  "json \<Rightarrow> (exn + json \<times> json list) \<times> log_entry list" where
  "get_user_from_cognito_context_try event =
     (case py_get event (lit ''requestContext'') (JObj []) of
        Inl e \<Rightarrow> (Inl e, [])
      | Inr request_context \<Rightarrow>
          (case py_get request_context (lit ''identity'') (JObj []) of
             Inl e \<Rightarrow> (Inl e, [])
           | Inr identity \<Rightarrow>
               (case identity of
                  JObj i \<Rightarrow> (Inr (context_user_info i, []), [(INFO, ''Cognito context user info: '')])
                | _ \<Rightarrow> (Inl AttributeError, []))))"

definition get_user_from_cognito_context ::
  "json \<Rightarrow> (exn + json \<times> json list) \<times> log_entry list" where
  "get_user_from_cognito_context event =
     (case get_user_from_cognito_context_try event of
        (Inl e, lg) \<Rightarrow>
          (Inr (JNull, []), lg @ [(ERROR, ''Error extracting user from Cognito context: '')])
      | (Inr r, lg) \<Rightarrow> (Inr r, lg))"

section \<open>\<^verbatim>\<open>handler\<close>\<close>

text \<open>
  The Lambda context object, of which the handler reads \<^verbatim>\<open>aws_request_id\<close>, and the
  response. \<open>body\<close> is the dict that line 154 hands to \<^verbatim>\<open>json.dumps\<close>. Both calls of
  \<^verbatim>\<open>json.dumps\<close>, at lines 125 and 154, serialise a value of type \<open>json\<close>, which does
  not raise.
\<close>

record lambda_context =
  aws_request_id :: pystr

record body =
  message :: pystr
  user_info :: json
  user_groups :: "json list"
  is_admin :: bool
  is_viewer :: bool
  api_info :: json
  timestamp :: pystr

record response =
  statusCode :: int
  headers :: "(pystr \<times> pystr) list"
  body :: body

text \<open>Lines 141 to 147, on a \<^verbatim>\<open>request_context\<close> that is a dict.\<close>

definition request_api_info :: "(pystr \<times> json) list \<Rightarrow> json" where
  "request_api_info request_context =
     JObj [(lit ''api_id'', dget request_context (lit ''apiId'')),
           (lit ''stage'', dget request_context (lit ''stage'')),
           (lit ''request_id'', dget request_context (lit ''requestId'')),
           (lit ''http_method'', dget request_context (lit ''httpMethod'')),
           (lit ''resource_path'', dget request_context (lit ''resourcePath''))]"

text \<open>
  Lines 136 to 166: the role decision and the response, from the identity and the
  groups chosen before. Nothing here is inside a \<^verbatim>\<open>try\<close>. \<^verbatim>\<open>"Admin" in user_groups\<close>
  compares with \<^verbatim>\<open>==\<close>, and a \<^verbatim>\<open>str\<close> equals no value but the same \<^verbatim>\<open>str\<close>.
\<close>

definition respond :: "json \<Rightarrow> lambda_context \<Rightarrow> json \<Rightarrow> json list \<Rightarrow> exn + response" where
  "respond event context ui groups =
     (case py_get event (lit ''requestContext'') (JObj []) of
        Inl e \<Rightarrow> Inl e
      | Inr request_context \<Rightarrow>
          (case request_context of
             JObj rc \<Rightarrow>
               Inr \<lparr>statusCode = 200,
                    headers = [(lit ''Content-Type'', lit ''application/json'')],
                    body = \<lparr>message = lit ''Hello from Lambda!'',
                            user_info = ui,
                            user_groups = groups,
                            is_admin = (JStr (lit ''Admin'') \<in> set groups),
                            is_viewer = (JStr (lit ''Viewer'') \<in> set groups),
                            api_info = request_api_info rc,
                            timestamp = aws_request_id context\<rparr>\<rparr>
           | _ \<Rightarrow> Inl AttributeError))"

text \<open>Lines 129 to 133: the identity and the groups, from the token or from the fallback.\<close>

definition identify :: "stdlib \<Rightarrow> json \<Rightarrow> (exn + json \<times> json list) \<times> log_entry list" where
  "identify L event =
     (case get_user_info_from_token L event of
        (Inl e, lg) \<Rightarrow> (Inl e, lg)
      | (Inr (ui, groups), lg) \<Rightarrow>
          if \<not> truthy ui
          then (case get_user_from_cognito_context event of (r, lg') \<Rightarrow> (r, lg @ lg'))
          else (Inr (ui, groups), lg))"

definition handler :: "stdlib \<Rightarrow> json \<Rightarrow> lambda_context \<Rightarrow> (exn + response) \<times> log_entry list" where
  "handler L event context =
     (case identify L event of
        (Inl e, lg) \<Rightarrow> (Inl e, [(INFO, ''Event: %s''), (INFO, ''Context: %s'')] @ lg)
      | (Inr (ui, groups), lg) \<Rightarrow>
          (respond event context ui groups,
           [(INFO, ''Event: %s''), (INFO, ''Context: %s'')] @ lg))"

section \<open>What the specification says\<close>

text \<open>
  The group list in the words of the specification: the first claim name present, in
  the fixed priority order, decides; a list is taken as it is, a string is split on
  commas and each piece trimmed, any other value gives no group, and so does a payload
  with none of the five names.
\<close>

definition spec_group_list :: "(pystr \<times> json) list \<Rightarrow> json list" where
  "spec_group_list payload =
     (case find (\<lambda>name. map_of payload name \<noteq> None)
             [lit ''cognito:groups'', lit ''groups'', lit ''custom:groups'', lit ''memberOf'',
              lit ''roles''] of
        None \<Rightarrow> []
      | Some name \<Rightarrow>
          (case map_of payload name of
             Some (JList xs) \<Rightarrow> xs
           | Some (JStr s) \<Rightarrow> map (\<lambda>g. JStr (str_strip g)) (str_split chr_comma s)
           | _ \<Rightarrow> []))"

text \<open>
  "No token is located or decoding fails": the lines 41 to 48 raise, or leave a falsy
  \<^verbatim>\<open>id_token\<close>, or the decoder returns \<^verbatim>\<open>None\<close>.
\<close>

definition no_token_or_decode_fails :: "stdlib \<Rightarrow> json \<Rightarrow> bool" where
  "no_token_or_decode_fails L event =
     (case locate_id_token event of
        Inl e \<Rightarrow> True
      | Inr id_token \<Rightarrow> \<not> truthy id_token \<or> fst (decode_jwt_payload L id_token) = Inr JNull)"

text \<open>A decoded payload that is a JSON object with at least one member.\<close>

fun nonempty_object :: "json \<Rightarrow> bool" where
  "nonempty_object (JObj kvs) = (kvs \<noteq> [])"
| "nonempty_object _ = False"

text \<open>
  A header name in some casing: each character of the name is put in upper case where
  the flag says so.
\<close>

definition upper_cp :: "nat \<Rightarrow> nat" where
  "upper_cp c = (if 97 \<le> c \<and> c \<le> 122 then c - 32 else c)"

definition recase :: "bool list \<Rightarrow> pystr \<Rightarrow> pystr" where
  "recase flags name = map (\<lambda>(f, c). if f then upper_cp c else c) (zip flags name)"

text \<open>A synthetic token of three parts, and the removal of trailing padding.\<close>

definition jwt :: "pystr \<Rightarrow> pystr \<Rightarrow> pystr \<Rightarrow> pystr" where
  "jwt header_part payload_part signature_part =
     header_part @ [chr_dot] @ payload_part @ [chr_dot] @ signature_part"

definition rstrip_pad :: "pystr \<Rightarrow> pystr" where
  "rstrip_pad s = rev (dropWhile (\<lambda>c. c = chr_equals) (rev s))"

section \<open>The library functions of CPython 3.11\<close>

text \<open>
  \<^verbatim>\<open>base64.urlsafe_b64encode\<close>: three bytes become four characters of the URL-safe
  alphabet; a last group of one or two bytes is padded with \<^verbatim>\<open>=\<close>. The result is given
  as the text of the same ASCII characters.
\<close>

definition b64_char :: "nat \<Rightarrow> nat" where
  "b64_char v =
     (if v < 26 then v + 65 else if v < 52 then v + 71 else if v < 62 then v - 4
      else if v = 62 then 45 else 95)"

fun urlsafe_b64encode :: "byte list \<Rightarrow> pystr" where
  "urlsafe_b64encode [] = []"
| "urlsafe_b64encode [a] =
     [b64_char (unat a div 4), b64_char (unat a mod 4 * 16), chr_equals, chr_equals]"
| "urlsafe_b64encode [a, b] =
     [b64_char (unat a div 4), b64_char (unat a mod 4 * 16 + unat b div 16),
      b64_char (unat b mod 16 * 4), chr_equals]"
| "urlsafe_b64encode (a # b # c # rest) =
     [b64_char (unat a div 4), b64_char (unat a mod 4 * 16 + unat b div 16),
      b64_char (unat b mod 16 * 4 + unat c div 64), b64_char (unat c mod 64)]
     @ urlsafe_b64encode rest"

text \<open>
  \<^verbatim>\<open>base64.urlsafe_b64decode\<close> on a \<^verbatim>\<open>str\<close>: a character outside ASCII raises
  \<^verbatim>\<open>ValueError\<close>; \<^verbatim>\<open>-\<close> and \<^verbatim>\<open>_\<close> are read as \<^verbatim>\<open>+\<close> and \<^verbatim>\<open>/\<close>; then
  \<^verbatim>\<open>binascii.a2b_base64\<close> runs in its lenient mode: characters outside the alphabet are
  skipped, padding ends the input once a group of two or three characters is
  complete, and input that ends inside a group raises \<^verbatim>\<open>binascii.Error\<close>.
\<close>

definition b64_value :: "nat \<Rightarrow> nat option" where
  "b64_value c =
     (if 65 \<le> c \<and> c \<le> 90 then Some (c - 65)
      else if 97 \<le> c \<and> c \<le> 122 then Some (c - 71)
      else if 48 \<le> c \<and> c \<le> 57 then Some (c + 4)
      else if c = 43 \<or> c = 45 then Some 62
      else if c = 47 \<or> c = 95 then Some 63
      else None)"

fun a2b_base64 :: "nat list \<Rightarrow> nat \<Rightarrow> nat \<Rightarrow> nat \<Rightarrow> byte list \<Rightarrow> exn + byte list" where
  "a2b_base64 [] quad_pos leftchar pads bin_data =
     (if quad_pos \<noteq> 0 then Inl BinasciiError else Inr bin_data)"
| "a2b_base64 (this_ch # rest) quad_pos leftchar pads bin_data =
     (if this_ch = chr_equals then
        (if 2 \<le> quad_pos \<and> 4 \<le> quad_pos + (pads + 1) then Inr bin_data
         else a2b_base64 rest quad_pos leftchar (if 2 \<le> quad_pos then pads + 1 else pads) bin_data)
      else
        (case b64_value this_ch of
           None \<Rightarrow> a2b_base64 rest quad_pos leftchar pads bin_data
         | Some v \<Rightarrow>
             if quad_pos = 0 then a2b_base64 rest 1 v 0 bin_data
             else if quad_pos = 1 then
               a2b_base64 rest 2 (v mod 16) 0 (bin_data @ [of_nat (leftchar * 4 + v div 16)])
             else if quad_pos = 2 then
               a2b_base64 rest 3 (v mod 4) 0 (bin_data @ [of_nat (leftchar * 16 + v div 4)])
             else a2b_base64 rest 0 0 0 (bin_data @ [of_nat (leftchar * 64 + v)])))"

definition py_urlsafe_b64decode :: "pystr \<Rightarrow> exn + byte list" where
  "py_urlsafe_b64decode s =
     (if list_ex (\<lambda>c. 128 \<le> c) s then Inl ValueError else a2b_base64 s 0 0 0 [])"

text \<open>
  \<^verbatim>\<open>bytes.decode("utf-8")\<close>: the strict UTF-8 decoder. \<open>utf8_first\<close> reads the first
  code point of a byte sequence and says how many bytes it took; overlong forms,
  surrogates and code points above U+10FFFF raise \<^verbatim>\<open>UnicodeDecodeError\<close>.
\<close>

definition is_cont :: "nat \<Rightarrow> bool" where
  "is_cont c = (0x80 \<le> c \<and> c \<le> 0xBF)"

fun utf8_first :: "nat list \<Rightarrow> (nat \<times> nat) option" where
  "utf8_first [] = None"
| "utf8_first (n # ns) =
     (if n < 0x80 then Some (n, 1)
      else if 0xC2 \<le> n \<and> n \<le> 0xDF then
        (case ns of
           c1 # _ \<Rightarrow> if is_cont c1 then Some (n mod 32 * 64 + c1 mod 64, 2) else None
         | _ \<Rightarrow> None)
      else if 0xE0 \<le> n \<and> n \<le> 0xEF then
        (case ns of
           c1 # c2 # _ \<Rightarrow>
             if is_cont c1 \<and> is_cont c2 \<and> (if n = 0xE0 then 0xA0 \<le> c1 else True)
                \<and> (if n = 0xED then c1 \<le> 0x9F else True)
             then Some (n mod 16 * 4096 + c1 mod 64 * 64 + c2 mod 64, 3) else None
         | _ \<Rightarrow> None)
      else if 0xF0 \<le> n \<and> n \<le> 0xF4 then
        (case ns of
           c1 # c2 # c3 # _ \<Rightarrow>
             if is_cont c1 \<and> is_cont c2 \<and> is_cont c3 \<and> (if n = 0xF0 then 0x90 \<le> c1 else True)
                \<and> (if n = 0xF4 then c1 \<le> 0x8F else True)
             then Some (n mod 8 * 262144 + c1 mod 64 * 4096 + c2 mod 64 * 64 + c3 mod 64, 4)
             else None
         | _ \<Rightarrow> None)
      else None)"

fun decode_utf8 :: "nat list \<Rightarrow> exn + pystr" where
  "decode_utf8 [] = Inr []"
| "decode_utf8 (n # ns) =
     (case utf8_first (n # ns) of
        None \<Rightarrow> Inl UnicodeDecodeError
      | Some (cp, k) \<Rightarrow>
          (case decode_utf8 (drop (k - 1) ns) of
             Inl e \<Rightarrow> Inl e
           | Inr cps \<Rightarrow> Inr (cp # cps)))"

definition py_bytes_decode_utf8 :: "byte list \<Rightarrow> exn + pystr" where
  "py_bytes_decode_utf8 bs = decode_utf8 (map unat bs)"

section \<open>Example requests\<close>

text \<open>
  An event as the gateway sends it, with one header and with the given
  \<^verbatim>\<open>requestContext\<close>.
\<close>

definition gateway_event :: "pystr \<Rightarrow> json \<Rightarrow> json \<Rightarrow> json" where
  "gateway_event header_name header_value request_context =
     JObj [(lit ''headers'', JObj [(lit ''Accept'', JStr (lit ''*/*'')), (header_name, header_value)]),
           (lit ''requestContext'', request_context)]"

definition example_request_context :: json where
  "example_request_context =
     JObj [(lit ''identity'', JObj [(lit ''sourceIp'', JStr (lit ''10.0.0.1''))]),
           (lit ''requestId'', JStr (lit ''r-1''))]"

text \<open>
  \<^verbatim>\<open>json.loads\<close> is not modelled as a parser. For the examples below its value is written
  down at the JSON texts that they use; the entry for any other text is not used.
\<close>

definition groups_payload_text :: pystr where
  \<open>groups_payload_text = lit ''{"cognito:groups": ["Admin", "X"]}''\<close>

definition json_loads_table :: "(pystr \<times> json) list" where
  \<open>json_loads_table =
     [(lit ''{}'', JObj []),
      (groups_payload_text,
       JObj [(lit ''cognito:groups'', JList [JStr (lit ''Admin''), JStr (lit ''X'')])]),
      (lit ''{"groups": "Admin, Viewer"}'',
       JObj [(lit ''groups'', JStr (lit ''Admin, Viewer''))]),
      (lit ''[1]'', JList [JInt 1]),
      (lit ''0'', JInt 0)]\<close>

definition json_loads_at :: "pystr \<Rightarrow> exn + json" where
  "json_loads_at text =
     (case map_of json_loads_table text of Some v \<Rightarrow> Inr v | None \<Rightarrow> Inl JSONDecodeError)"

text \<open>\<^verbatim>\<open>s.encode()\<close> on ASCII text: one byte for each character.\<close>

definition ascii_bytes :: "pystr \<Rightarrow> byte list" where
  "ascii_bytes s = map of_nat s"

definition cpython :: stdlib where
  "cpython =
     \<lparr>urlsafe_b64decode = py_urlsafe_b64decode,
      bytes_decode_utf8 = py_bytes_decode_utf8,
      json_loads = json_loads_at\<rparr>"

section \<open>Properties of the payload decoder\<close>

lemma str_split_not_Nil: "str_split sep s \<noteq> []"
  by (induction s) (auto split: list.splits)

lemma length_str_split: "length (str_split sep s) = count_list s sep + 1"
proof (induction s)
  case Nil
  show ?case by simp
next
  case (Cons c cs)
  obtain p ps where "str_split sep cs = p # ps"
    using str_split_not_Nil [of sep cs] by (cases "str_split sep cs") auto
  with Cons show ?case by simp
qed

lemma replicate_2: "replicate 2 x = [x, x]"
  by (simp add: numeral_2_eq_2)

lemma replicate_3: "replicate 3 x = [x, x, x]"
  by (simp add: numeral_3_eq_3)

lemma pad_payload_part_eq:
  "pad_payload_part p = p @ replicate ((4 - length p mod 4) mod 4) 61"
proof -
  have "length p mod 4 < 4" by simp
  then consider "length p mod 4 = 0" | "length p mod 4 = 1" | "length p mod 4 = 2" | "length p mod 4 = 3"
    by linarith
  then show ?thesis
    by cases (simp_all add: pad_payload_part_def Let_def)
qed

lemma decode_jwt_payload_try_three:
  assumes "str_split 46 token = [p0, payload_part, p2]"
  shows "decode_jwt_payload_try L (JStr token) = (loads_payload L (pad_payload_part payload_part), [])"
  using assms by (simp add: decode_jwt_payload_try_def py_split_def)

text \<open>
  C2: for a token of exactly three dot-separated parts, the text handed to
  \<^verbatim>\<open>base64.urlsafe_b64decode\<close> is the second part followed by exactly
  \<open>(4 - length mod 4) mod 4\<close> characters \<^verbatim>\<open>=\<close>: one, two or three of them when the length
  of the part is no multiple of 4, and none when it is. The result of the decoder is
  what the three library calls make of that text.
\<close>

theorem decode_jwt_payload_padding:
  assumes "str_split chr_dot token = [p0, payload_part, p2]"
  shows "decode_jwt_payload L (JStr token) =
           (case urlsafe_b64decode L
                   (payload_part @ replicate ((4 - length payload_part mod 4) mod 4) chr_equals) of
              Inl e \<Rightarrow> (Inr JNull, [(ERROR, ''Error decoding JWT payload: '')])
            | Inr decoded_bytes \<Rightarrow>
                (case bytes_decode_utf8 L decoded_bytes of
                   Inl e \<Rightarrow> (Inr JNull, [(ERROR, ''Error decoding JWT payload: '')])
                 | Inr text \<Rightarrow>
                     (case json_loads L text of
                        Inl e \<Rightarrow> (Inr JNull, [(ERROR, ''Error decoding JWT payload: '')])
                      | Inr payload \<Rightarrow> (Inr payload, []))))
         \<and> (4 - length payload_part mod 4) mod 4 =
             (if length payload_part mod 4 = 0 then 0 else 4 - length payload_part mod 4)
         \<and> (if length payload_part mod 4 = 0 then (4 - length payload_part mod 4) mod 4 = 0
            else (4 - length payload_part mod 4) mod 4 \<in> {1, 2, 3})"
proof -
  let ?k = "(4 - length payload_part mod 4) mod 4"
  have a: "decode_jwt_payload_try L (JStr token) =
             (loads_payload L (payload_part @ replicate ?k 61), [])"
    using decode_jwt_payload_try_three [OF assms] by (simp add: pad_payload_part_eq)
  have b: "length payload_part mod 4 < 4" by simp
  have c: "?k = (if length payload_part mod 4 = 0 then 0 else 4 - length payload_part mod 4)"
    using b by auto
  have d: "(if length payload_part mod 4 = 0 then ?k = 0 else ?k \<in> {1, 2, 3})"
    using b by (auto simp: c)
  have e: "decode_jwt_payload L (JStr token) =
           (case urlsafe_b64decode L (payload_part @ replicate ?k 61) of
              Inl e \<Rightarrow> (Inr JNull, [(ERROR, ''Error decoding JWT payload: '')])
            | Inr decoded_bytes \<Rightarrow>
                (case bytes_decode_utf8 L decoded_bytes of
                   Inl e \<Rightarrow> (Inr JNull, [(ERROR, ''Error decoding JWT payload: '')])
                 | Inr text \<Rightarrow>
                     (case json_loads L text of
                        Inl e \<Rightarrow> (Inr JNull, [(ERROR, ''Error decoding JWT payload: '')])
                      | Inr payload \<Rightarrow> (Inr payload, []))))"
    unfolding decode_jwt_payload_def a loads_payload_def
    by (simp split: sum.splits)
  from e c d show ?thesis by (intro conjI)
qed

text \<open>Evaluation of the examples, with the library functions of CPython.\<close>

lemmas example_simps =
  decode_jwt_payload_def decode_jwt_payload_try_def py_split_def lit_def pad_payload_part_def
  loads_payload_def cpython_def py_urlsafe_b64decode_def b64_value_def py_bytes_decode_utf8_def
  json_loads_at_def json_loads_table_def groups_payload_text_def is_cont_def replicate_2 replicate_3

lemma decode_example_empty:
  "decode_jwt_payload cpython (JStr (lit ''h.e30.s'')) = (Inr (JObj []), [])"
  by (simp add: example_simps)

theorem decode_jwt_payload_padding_witness:
  "str_split 46 (lit ''h.e30.s'') = [lit ''h'', lit ''e30'', lit ''s'']
   \<and> urlsafe_b64decode cpython (lit ''e30'' @ replicate ((4 - length (lit ''e30'') mod 4) mod 4) 61) = Inr [123, 125]
   \<and> decode_jwt_payload cpython (JStr (lit ''h.e30.s'')) = (Inr (JObj []), [])
   \<and> (4 - length (lit ''e30'') mod 4) mod 4 = 1"
proof -
  have h: "str_split 46 (lit ''h.e30.s'') = [lit ''h'', lit ''e30'', lit ''s'']"
    by (simp add: lit_def)
  show ?thesis
    using h decode_jwt_payload_padding [OF h, of cpython]
    by (simp add: example_simps)
qed

text \<open>
  C3: a token string has three dot-separated parts exactly when it has two dots; one
  that has not makes the decoder log "Invalid JWT token format" and return \<^verbatim>\<open>None\<close>. On every input the decoder returns a
  value and raises nothing; when a step of the \<^verbatim>\<open>try\<close> block raises, it logs the error
  and returns \<^verbatim>\<open>None\<close>.
\<close>

theorem decode_jwt_payload_never_raises:
  "(length (str_split chr_dot token) \<noteq> 3) = (count_list token chr_dot \<noteq> 2)
   \<and> (count_list token chr_dot \<noteq> 2 \<longrightarrow>
        decode_jwt_payload L (JStr token) = (Inr JNull, [(ERROR, ''Invalid JWT token format'')]))
   \<and> (\<exists>v lg. decode_jwt_payload L t = (Inr v, lg))
   \<and> (\<forall>e. fst (decode_jwt_payload_try L t) = Inl e \<longrightarrow>
        decode_jwt_payload L t = (Inr JNull, [(ERROR, ''Error decoding JWT payload: '')]))"
proof -
  have p0: "(length (str_split chr_dot token) \<noteq> 3) = (count_list token chr_dot \<noteq> 2)"
    by (simp add: length_str_split)
  have p1: "count_list token chr_dot \<noteq> 2 \<longrightarrow>
        decode_jwt_payload L (JStr token) = (Inr JNull, [(ERROR, ''Invalid JWT token format'')])"
  proof
    assume "count_list token chr_dot \<noteq> 2"
    then have "length (str_split chr_dot token) \<noteq> 3"
      by (simp add: length_str_split)
    then show "decode_jwt_payload L (JStr token) =
                 (Inr JNull, [(ERROR, ''Invalid JWT token format'')])"
      by (simp add: decode_jwt_payload_def decode_jwt_payload_try_def py_split_def)
  qed
  have p2: "\<exists>v lg. decode_jwt_payload L t = (Inr v, lg)"
    by (cases "decode_jwt_payload_try L t")
       (auto simp: decode_jwt_payload_def split: sum.splits)
  have p3: "\<forall>e. fst (decode_jwt_payload_try L t) = Inl e \<longrightarrow>
        decode_jwt_payload L t = (Inr JNull, [(ERROR, ''Error decoding JWT payload: '')])"
  proof (intro allI impI)
    fix e
    assume "fst (decode_jwt_payload_try L t) = Inl e"
    moreover have "snd (decode_jwt_payload_try L t) = []
        \<or> (\<exists>v. fst (decode_jwt_payload_try L t) = Inr v)"
      by (auto simp: decode_jwt_payload_try_def split: sum.splits)
    ultimately show "decode_jwt_payload L t =
        (Inr JNull, [(ERROR, ''Error decoding JWT payload: '')])"
      by (cases "decode_jwt_payload_try L t") (auto simp: decode_jwt_payload_def)
  qed
  from p0 p1 p2 p3 show ?thesis by (intro conjI)
qed

theorem decode_jwt_payload_never_raises_witness:
  "count_list (lit ''a.b'') 46 \<noteq> 2
   \<and> decode_jwt_payload cpython (JStr (lit ''a.b'')) = (Inr JNull, [(ERROR, ''Invalid JWT token format'')])
   \<and> fst (decode_jwt_payload_try cpython (JStr (lit ''h.e.s''))) = Inl BinasciiError
   \<and> decode_jwt_payload cpython (JStr (lit ''h.e.s'')) = (Inr JNull, [(ERROR, ''Error decoding JWT payload: '')])"
proof -
  have h: "count_list (lit ''a.b'') 46 \<noteq> 2"
    by (simp add: lit_def)
  have k: "fst (decode_jwt_payload_try cpython (JStr (lit ''h.e.s''))) = Inl BinasciiError"
    by (simp add: example_simps)
  note t = decode_jwt_payload_never_raises [of "lit ''a.b''" cpython "JStr (lit ''h.e.s'')"]
  have a: "decode_jwt_payload cpython (JStr (lit ''a.b'')) = (Inr JNull, [(ERROR, ''Invalid JWT token format'')])"
    using t h by blast
  have b: "decode_jwt_payload cpython (JStr (lit ''h.e.s'')) = (Inr JNull, [(ERROR, ''Error decoding JWT payload: '')])"
    using t k by blast
  from h a k b show ?thesis by (intro conjI)
qed

section \<open>Properties of the claim extractor\<close>

lemma scan_group_claims_find:
  "scan_group_claims names d [] =
     (case find (\<lambda>name. map_of d name \<noteq> None) names of
        None \<Rightarrow> []
      | Some name \<Rightarrow>
          (case map_of d name of
             Some (JList xs) \<Rightarrow> xs
           | Some (JStr s) \<Rightarrow> map (\<lambda>g. JStr (str_strip g)) (str_split 44 s)
           | _ \<Rightarrow> []))"
  by (induction names) (auto split: option.splits json.splits)

lemma scan_group_claims_spec:
  "scan_group_claims possible_group_claims d [] = spec_group_list d"
  by (simp only: scan_group_claims_find spec_group_list_def possible_group_claims_def)

lemma spec_group_list_Nil: "spec_group_list [] = []"
  by (simp add: spec_group_list_def)

lemma get_user_info_from_token_try_dict:
  assumes "locate_id_token event = Inr id_token" and "truthy id_token"
    and "decode_jwt_payload L id_token = (Inr (JObj d), lg)" and "d \<noteq> []"
  shows "get_user_info_from_token_try L event =
           (Inr (token_user_info d, spec_group_list d),
            lg @ [(INFO, ''Token payload: ''), (INFO, ''User info: ''), (INFO, ''User groups: '')])"
  using assms by (simp add: get_user_info_from_token_try_def scan_group_claims_spec)

lemma get_user_info_from_token_dict:
  assumes "locate_id_token event = Inr id_token" and "truthy id_token"
    and "fst (decode_jwt_payload L id_token) = Inr (JObj d)" and "d \<noteq> []"
  shows "fst (get_user_info_from_token L event) = Inr (token_user_info d, spec_group_list d)"
proof -
  obtain lg where "decode_jwt_payload L id_token = (Inr (JObj d), lg)"
    using assms(3) by (cases "decode_jwt_payload L id_token") auto
  from get_user_info_from_token_try_dict [OF assms(1,2) this assms(4)]
  show ?thesis by (simp add: get_user_info_from_token_def)
qed

lemma get_user_info_from_token_falsy_payload:
  assumes "locate_id_token event = Inr id_token" and "truthy id_token"
    and "fst (decode_jwt_payload L id_token) = Inr payload" and "\<not> nonempty_object payload"
  shows "fst (get_user_info_from_token L event) = Inr (JNull, [])"
proof -
  obtain lg where d: "decode_jwt_payload L id_token = (Inr payload, lg)"
    using assms(3) by (cases "decode_jwt_payload L id_token") auto
  show ?thesis
    using assms(1,2,4) d
    by (cases payload)
       (auto simp: get_user_info_from_token_def get_user_info_from_token_try_def)
qed

lemma get_user_info_from_token_no_token:
  assumes "locate_id_token event = Inr v" and "\<not> truthy v"
  shows "get_user_info_from_token L event =
           (Inr (JNull, []), [(WARNING, ''No X-Cognito-Id-Token header found'')])"
  using assms by (simp add: get_user_info_from_token_def get_user_info_from_token_try_def)

lemma get_user_info_from_token_total:
  "\<exists>ui gs lg. get_user_info_from_token L event = (Inr (ui, gs), lg)"
  by (cases "get_user_info_from_token_try L event")
     (auto simp: get_user_info_from_token_def split: sum.splits)

lemma get_user_from_cognito_context_total:
  "\<exists>ui lg. get_user_from_cognito_context event = (Inr (ui, []), lg)"
  by (auto simp: get_user_from_cognito_context_def get_user_from_cognito_context_try_def
           split: sum.splits json.splits)

lemma identify_total: "\<exists>ui gs lg. identify L event = (Inr (ui, gs), lg)"
proof -
  obtain ui gs lg where a: "get_user_info_from_token L event = (Inr (ui, gs), lg)"
    using get_user_info_from_token_total by blast
  obtain ui' lg' where b: "get_user_from_cognito_context event = (Inr (ui', []), lg')"
    using get_user_from_cognito_context_total by blast
  show ?thesis by (simp add: identify_def a b)
qed

text \<open>
  C1: whenever a token is located and decoded, the group list that the extractor
  returns is the one the specification describes for the payload: it comes from the
  first of the names cognito:groups, groups, custom:groups, memberOf, roles that the
  payload has; a list is used as it is, a string is split on commas and each piece
  trimmed, any other value gives the empty list, and so does a payload with none of
  the five names (a payload that is no JSON object has none).
\<close>

theorem group_list_from_first_present_claim:
  assumes "locate_id_token event = Inr id_token" and "truthy id_token"
    and "fst (decode_jwt_payload L id_token) = Inr payload"
  shows "\<exists>ui. fst (get_user_info_from_token L event) =
           Inr (ui, case payload of JObj d \<Rightarrow> spec_group_list d | _ \<Rightarrow> [])"
proof (cases "nonempty_object payload")
  case True
  then obtain d where d: "payload = JObj d" "d \<noteq> []"
    by (cases payload) auto
  from get_user_info_from_token_dict [OF assms(1,2) assms(3) [unfolded d(1)] d(2)]
  show ?thesis by (simp add: d(1))
next
  case False
  from get_user_info_from_token_falsy_payload [OF assms False]
  have "fst (get_user_info_from_token L event) = Inr (JNull, [])" .
  moreover have "(case payload of JObj d \<Rightarrow> spec_group_list d | _ \<Rightarrow> []) = []"
    using False by (cases payload) (simp_all add: spec_group_list_Nil)
  ultimately show ?thesis by simp
qed

text \<open>Examples.\<close>

lemmas extractor_simps =
  locate_id_token_def py_get_def py_items_def str_lower_def lower_cp_def gateway_event_def
  example_request_context_def token_user_info_def dget_def spec_group_list_def str_strip_def
  isspace_def

theorem group_list_from_first_present_claim_witness:
  "locate_id_token
     (gateway_event (lit ''X-Cognito-Id-Token'')
        (JStr (lit ''h.eyJncm91cHMiOiAiQWRtaW4sIFZpZXdlciJ9.s'')) example_request_context) =
     Inr (JStr (lit ''h.eyJncm91cHMiOiAiQWRtaW4sIFZpZXdlciJ9.s''))
   \<and> truthy (JStr (lit ''h.eyJncm91cHMiOiAiQWRtaW4sIFZpZXdlciJ9.s''))
   \<and> fst (decode_jwt_payload cpython (JStr (lit ''h.eyJncm91cHMiOiAiQWRtaW4sIFZpZXdlciJ9.s''))) =
       Inr (JObj [(lit ''groups'', JStr (lit ''Admin, Viewer''))])
   \<and> snd (projr (fst (get_user_info_from_token cpython
        (gateway_event (lit ''X-Cognito-Id-Token'')
           (JStr (lit ''h.eyJncm91cHMiOiAiQWRtaW4sIFZpZXdlciJ9.s'')) example_request_context)))) =
       [JStr (lit ''Admin''), JStr (lit ''Viewer'')]"
proof -
  let ?tok = "JStr (lit ''h.eyJncm91cHMiOiAiQWRtaW4sIFZpZXdlciJ9.s'')"
  let ?ev = "gateway_event (lit ''X-Cognito-Id-Token'') ?tok example_request_context"
  have a: "locate_id_token ?ev = Inr ?tok"
    by (simp add: extractor_simps lit_def)
  have b: "truthy ?tok"
    by (simp add: lit_def)
  have c: "fst (decode_jwt_payload cpython ?tok) = Inr (JObj [(lit ''groups'', JStr (lit ''Admin, Viewer''))])"
    by (simp add: example_simps)
  have d: "spec_group_list [(lit ''groups'', JStr (lit ''Admin, Viewer''))] =
             [JStr (lit ''Admin''), JStr (lit ''Viewer'')]"
    by (simp add: extractor_simps lit_def)
  from group_list_from_first_present_claim [OF a b c]
  have "snd (projr (fst (get_user_info_from_token cpython ?ev))) =
          [JStr (lit ''Admin''), JStr (lit ''Viewer'')]"
    by (auto simp: d)
  with a b c show ?thesis by (intro conjI)
qed

section \<open>The token locator\<close>

lemma find_id_token_first:
  assumes "i < length hs" and "str_lower (fst (hs ! i)) = lit ''x-cognito-id-token''"
    and "\<forall>j<i. str_lower (fst (hs ! j)) \<noteq> lit ''x-cognito-id-token''"
  shows "find_id_token hs z = snd (hs ! i)"
  using assms
proof (induction hs arbitrary: i)
  case Nil
  then show ?case by simp
next
  case (Cons h hs)
  obtain n v where h: "h = (n, v)" by (cases h)
  show ?case
  proof (cases i)
    case 0
    with Cons.prems h show ?thesis by simp
  next
    case (Suc k)
    have "str_lower n \<noteq> lit ''x-cognito-id-token''"
      using Cons.prems(3) Suc h by force
    moreover have "find_id_token hs z = snd (hs ! k)"
    proof (rule Cons.IH)
      show "k < length hs" using Cons.prems(1) Suc by simp
      show "str_lower (fst (hs ! k)) = lit ''x-cognito-id-token''"
        using Cons.prems(2) Suc by simp
      show "\<forall>j<k. str_lower (fst (hs ! j)) \<noteq> lit ''x-cognito-id-token''"
      proof (intro allI impI)
        fix j assume "j < k"
        then have "Suc j < i" using Suc by simp
        with Cons.prems(3) have "str_lower (fst ((h # hs) ! Suc j)) \<noteq> lit ''x-cognito-id-token''"
          by blast
        then show "str_lower (fst (hs ! j)) \<noteq> lit ''x-cognito-id-token''" by simp
      qed
    qed
    ultimately show ?thesis using Suc h by simp
  qed
qed

lemma find_id_token_none:
  assumes "\<forall>i<length hs. str_lower (fst (hs ! i)) \<noteq> lit ''x-cognito-id-token''"
  shows "find_id_token hs z = z"
  using assms
proof (induction hs)
  case Nil
  then show ?case by simp
next
  case (Cons h hs)
  obtain n v where h: "h = (n, v)" by (cases h)
  have "str_lower n \<noteq> lit ''x-cognito-id-token''"
    using Cons.prems h by force
  moreover have "find_id_token hs z = z"
  proof (rule Cons.IH, intro allI impI)
    fix i assume "i < length hs"
    then have "Suc i < length (h # hs)" by simp
    with Cons.prems have "str_lower (fst ((h # hs) ! Suc i)) \<noteq> lit ''x-cognito-id-token''"
      by blast
    then show "str_lower (fst (hs ! i)) \<noteq> lit ''x-cognito-id-token''" by simp
  qed
  ultimately show ?case using h by simp
qed

lemma locate_id_token_headers:
  assumes "py_get event (lit ''headers'') (JObj []) = Inr (JObj hs)"
  shows "locate_id_token event = Inr (find_id_token hs JNull)"
  using assms by (simp add: locate_id_token_def py_items_def)

lemma lower_recase:
  assumes "length flags = length name"
    and "\<forall>c\<in>set name. (97 \<le> c \<and> c \<le> 122) \<or> c = 45"
  shows "str_lower (recase flags name) = name"
  using assms
proof (induction flags name rule: list_induct2)
  case Nil
  show ?case by (simp add: str_lower_def recase_def)
next
  case (Cons f fs c cs)
  have "str_lower (recase fs cs) = cs"
    using Cons by simp
  moreover have "lower_cp (if f then upper_cp c else c) = c"
    using Cons.prems by (auto simp: lower_cp_def upper_cp_def)
  ultimately show ?case
    by (simp add: str_lower_def recase_def)
qed

lemma header_name_chars:
  "\<forall>c\<in>set (lit ''x-cognito-id-token''). (97 \<le> c \<and> c \<le> 122) \<or> c = 45"
  by (simp add: lit_def)

lemma lower_recase_header:
  "length flags = length (lit ''x-cognito-id-token'') \<Longrightarrow>
     str_lower (recase flags (lit ''x-cognito-id-token'')) = lit ''x-cognito-id-token''"
  by (rule lower_recase [OF _ header_name_chars])

lemma lower_upper_header:
  "str_lower (lit ''X-COGNITO-ID-TOKEN'') = lit ''x-cognito-id-token''"
  by (simp add: str_lower_def lower_cp_def lit_def)

text \<open>
  C6: the locator compares the lower-cased header name with x-cognito-id-token, so the
  name matches in every casing; it returns the value of the first header that matches,
  in the order of iteration, and \<^verbatim>\<open>None\<close> when no header matches. A header named
  X-COGNITO-ID-TOKEN that is the first match and carries a token decoding to a JSON
  object with members is found, and the extractor returns the identity and the groups
  of that payload.
\<close>

theorem token_locator_first_match:
  assumes "py_get event (lit ''headers'') (JObj []) = Inr (JObj hs)"
  shows "(\<forall>i. i < length hs \<and> str_lower (fst (hs ! i)) = lit ''x-cognito-id-token''
              \<and> (\<forall>j<i. str_lower (fst (hs ! j)) \<noteq> lit ''x-cognito-id-token'')
            \<longrightarrow> locate_id_token event = Inr (snd (hs ! i)))
       \<and> ((\<forall>i<length hs. str_lower (fst (hs ! i)) \<noteq> lit ''x-cognito-id-token'')
            \<longrightarrow> locate_id_token event = Inr JNull)
       \<and> (\<forall>flags. length flags = length (lit ''x-cognito-id-token'')
            \<longrightarrow> str_lower (recase flags (lit ''x-cognito-id-token'')) = lit ''x-cognito-id-token'')
       \<and> (\<forall>i tok d. i < length hs \<and> hs ! i = (lit ''X-COGNITO-ID-TOKEN'', JStr tok)
              \<and> (\<forall>j<i. str_lower (fst (hs ! j)) \<noteq> lit ''x-cognito-id-token'')
              \<and> tok \<noteq> [] \<and> fst (decode_jwt_payload L (JStr tok)) = Inr (JObj d) \<and> d \<noteq> []
            \<longrightarrow> fst (get_user_info_from_token L event) = Inr (token_user_info d, spec_group_list d))"
proof (intro conjI allI impI)
  fix i
  assume "i < length hs \<and> str_lower (fst (hs ! i)) = lit ''x-cognito-id-token''
            \<and> (\<forall>j<i. str_lower (fst (hs ! j)) \<noteq> lit ''x-cognito-id-token'')"
  then have "find_id_token hs JNull = snd (hs ! i)"
    by (intro find_id_token_first) auto
  then show "locate_id_token event = Inr (snd (hs ! i))"
    by (simp add: locate_id_token_headers [OF assms])
next
  assume "\<forall>i<length hs. str_lower (fst (hs ! i)) \<noteq> lit ''x-cognito-id-token''"
  then have "find_id_token hs JNull = JNull"
    by (rule find_id_token_none)
  then show "locate_id_token event = Inr JNull"
    by (simp add: locate_id_token_headers [OF assms])
next
  fix flags :: "bool list"
  assume "length flags = length (lit ''x-cognito-id-token'')"
  then show "str_lower (recase flags (lit ''x-cognito-id-token'')) = lit ''x-cognito-id-token''"
    by (rule lower_recase_header)
next
  fix i tok d
  assume a: "i < length hs \<and> hs ! i = (lit ''X-COGNITO-ID-TOKEN'', JStr tok)
              \<and> (\<forall>j<i. str_lower (fst (hs ! j)) \<noteq> lit ''x-cognito-id-token'')
              \<and> tok \<noteq> [] \<and> fst (decode_jwt_payload L (JStr tok)) = Inr (JObj d) \<and> d \<noteq> []"
  then have "find_id_token hs JNull = snd (hs ! i)"
    by (intro find_id_token_first) (auto simp: lower_upper_header)
  then have "locate_id_token event = Inr (JStr tok)"
    using a by (simp add: locate_id_token_headers [OF assms])
  moreover have "truthy (JStr tok)" using a by simp
  ultimately show "fst (get_user_info_from_token L event) = Inr (token_user_info d, spec_group_list d)"
    using a by (intro get_user_info_from_token_dict) auto
qed

section \<open>The handler\<close>

lemma handler_identify:
  assumes "fst (identify L event) = Inr (ui, gs)"
  shows "fst (handler L event ctx) = respond event ctx ui gs"
  using assms by (cases "identify L event") (auto simp: handler_def)

lemma respond_Inr:
  assumes "respond event ctx ui gs = Inr r"
  shows "statusCode r = 200 \<and> headers r = [(lit ''Content-Type'', lit ''application/json'')]
       \<and> user_info (body r) = ui \<and> user_groups (body r) = gs
       \<and> is_admin (body r) = (JStr (lit ''Admin'') \<in> set gs)
       \<and> is_viewer (body r) = (JStr (lit ''Viewer'') \<in> set gs)"
  using assms by (auto simp: respond_def split: sum.splits json.splits)

lemma respond_dict:
  assumes "py_get event (lit ''requestContext'') (JObj []) = Inr (JObj rc)"
  shows "respond event ctx ui gs =
           Inr \<lparr>statusCode = 200,
                headers = [(lit ''Content-Type'', lit ''application/json'')],
                body = \<lparr>message = lit ''Hello from Lambda!'', user_info = ui, user_groups = gs,
                        is_admin = (JStr (lit ''Admin'') \<in> set gs),
                        is_viewer = (JStr (lit ''Viewer'') \<in> set gs),
                        api_info = request_api_info rc,
                        timestamp = aws_request_id ctx\<rparr>\<rparr>"
  using assms by (simp add: respond_def)

lemma identify_token:
  assumes "fst (get_user_info_from_token L event) = Inr (ui, gs)" and "truthy ui"
  shows "fst (identify L event) = Inr (ui, gs)"
  using assms by (cases "get_user_info_from_token L event") (auto simp: identify_def)

lemma identify_fallback:
  assumes "fst (get_user_info_from_token L event) = Inr (ui, gs)" and "\<not> truthy ui"
  shows "fst (identify L event) = fst (get_user_from_cognito_context event)"
  using assms
  by (cases "get_user_info_from_token L event"; cases "get_user_from_cognito_context event")
     (auto simp: identify_def)

lemma truthy_token_user_info: "truthy (token_user_info d)"
  by (simp add: token_user_info_def)

lemma truthy_context_user_info: "truthy (context_user_info i)"
  by (simp add: context_user_info_def)

text \<open>
  C5: the group list in a response of the handler is the list that lines 129 to 133
  computed: the list of the token extractor when it returned an identity, and the
  empty list of the fallback otherwise. \<open>is_admin\<close> says whether the string "Admin" is
  an element of that list, and \<open>is_viewer\<close> whether "Viewer" is; the comparison is
  equality of strings. When the token decodes to \<^verbatim>\<open>{"cognito:groups": ["Admin", "X"]}\<close>,
  the group list is \<^verbatim>\<open>["Admin", "X"]\<close>, \<open>is_admin\<close> is true and \<open>is_viewer\<close> is false.
\<close>

theorem role_flags_are_membership:
  "(\<exists>ui gs. fst (identify L event) = Inr (ui, gs)
       \<and> (\<forall>r. fst (handler L event ctx) = Inr r \<longrightarrow>
              user_groups (body r) = gs
            \<and> is_admin (body r) = (JStr (lit ''Admin'') \<in> set gs)
            \<and> is_viewer (body r) = (JStr (lit ''Viewer'') \<in> set gs)))
   \<and> (\<forall>ui gs r. fst (get_user_info_from_token L event) = Inr (ui, gs)
          \<and> fst (handler L event ctx) = Inr r \<longrightarrow>
        user_groups (body r) = (if truthy ui then gs else [])
      \<and> is_admin (body r) = (truthy ui \<and> JStr (lit ''Admin'') \<in> set gs)
      \<and> is_viewer (body r) = (truthy ui \<and> JStr (lit ''Viewer'') \<in> set gs))
   \<and> (\<forall>r. fst (handler L event ctx) = Inr r \<longrightarrow>
        is_admin (body r) = (JStr (lit ''Admin'') \<in> set (user_groups (body r)))
      \<and> is_viewer (body r) = (JStr (lit ''Viewer'') \<in> set (user_groups (body r))))
   \<and> (locate_id_token event = Inr id_token \<and> truthy id_token
        \<and> fst (decode_jwt_payload L id_token) =
            Inr (JObj [(lit ''cognito:groups'', JList [JStr (lit ''Admin''), JStr (lit ''X'')])])
      \<longrightarrow> snd (projr (fst (identify L event))) = [JStr (lit ''Admin''), JStr (lit ''X'')]
        \<and> (\<forall>r. fst (handler L event ctx) = Inr r \<longrightarrow>
              user_groups (body r) = [JStr (lit ''Admin''), JStr (lit ''X'')]
            \<and> is_admin (body r) \<and> \<not> is_viewer (body r)))"
proof -
  let ?d = "[(lit ''cognito:groups'', JList [JStr (lit ''Admin''), JStr (lit ''X'')])]"
  let ?gs = "[JStr (lit ''Admin''), JStr (lit ''X'')]"
  have flags: "user_groups (body r) = gs
        \<and> is_admin (body r) = (JStr (lit ''Admin'') \<in> set gs)
        \<and> is_viewer (body r) = (JStr (lit ''Viewer'') \<in> set gs)"
    if i: "fst (identify L event) = Inr (ui, gs)" and r: "fst (handler L event ctx) = Inr r"
    for ui gs r
  proof -
    have "respond event ctx ui gs = Inr r"
      using r handler_identify [OF i, of ctx] by simp
    from respond_Inr [OF this] show ?thesis by simp
  qed
  obtain ui0 gs0 lg0 where i0: "identify L event = (Inr (ui0, gs0), lg0)"
    using identify_total by blast
  then have i0': "fst (identify L event) = Inr (ui0, gs0)" by simp
  have p0: "\<exists>ui gs. fst (identify L event) = Inr (ui, gs)
       \<and> (\<forall>r. fst (handler L event ctx) = Inr r \<longrightarrow>
              user_groups (body r) = gs
            \<and> is_admin (body r) = (JStr (lit ''Admin'') \<in> set gs)
            \<and> is_viewer (body r) = (JStr (lit ''Viewer'') \<in> set gs))"
    using i0' flags [OF i0'] by blast
  have pe: "\<forall>ui gs r. fst (get_user_info_from_token L event) = Inr (ui, gs)
          \<and> fst (handler L event ctx) = Inr r \<longrightarrow>
        user_groups (body r) = (if truthy ui then gs else [])
      \<and> is_admin (body r) = (truthy ui \<and> JStr (lit ''Admin'') \<in> set gs)
      \<and> is_viewer (body r) = (truthy ui \<and> JStr (lit ''Viewer'') \<in> set gs)"
  proof (intro allI impI)
    fix ui gs r
    assume a: "fst (get_user_info_from_token L event) = Inr (ui, gs)
          \<and> fst (handler L event ctx) = Inr r"
    show "user_groups (body r) = (if truthy ui then gs else [])
      \<and> is_admin (body r) = (truthy ui \<and> JStr (lit ''Admin'') \<in> set gs)
      \<and> is_viewer (body r) = (truthy ui \<and> JStr (lit ''Viewer'') \<in> set gs)"
    proof (cases "truthy ui")
      case True
      have "fst (identify L event) = Inr (ui, gs)"
        using a True by (intro identify_token) auto
      from flags [OF this] a True show ?thesis by simp
    next
      case False
      obtain ui' lg' where f: "get_user_from_cognito_context event = (Inr (ui', []), lg')"
        using get_user_from_cognito_context_total by blast
      have "fst (identify L event) = fst (get_user_from_cognito_context event)"
        using a False by (intro identify_fallback [of L event ui gs]) auto
      then have "fst (identify L event) = Inr (ui', [])"
        by (simp add: f)
      from flags [OF this] a False show ?thesis by simp
    qed
  qed
  have p1: "\<forall>r. fst (handler L event ctx) = Inr r \<longrightarrow>
        is_admin (body r) = (JStr (lit ''Admin'') \<in> set (user_groups (body r)))
      \<and> is_viewer (body r) = (JStr (lit ''Viewer'') \<in> set (user_groups (body r)))"
    using flags [OF i0'] by simp
  have p2: "locate_id_token event = Inr id_token \<and> truthy id_token
        \<and> fst (decode_jwt_payload L id_token) = Inr (JObj ?d)
      \<longrightarrow> snd (projr (fst (identify L event))) = ?gs
        \<and> (\<forall>r. fst (handler L event ctx) = Inr r \<longrightarrow>
              user_groups (body r) = ?gs \<and> is_admin (body r) \<and> \<not> is_viewer (body r))"
  proof (intro impI)
    assume a: "locate_id_token event = Inr id_token \<and> truthy id_token
        \<and> fst (decode_jwt_payload L id_token) = Inr (JObj ?d)"
    have g: "spec_group_list ?d = ?gs"
      by (simp add: spec_group_list_def)
    have "fst (get_user_info_from_token L event) = Inr (token_user_info ?d, spec_group_list ?d)"
      using a by (intro get_user_info_from_token_dict) auto
    then have i: "fst (identify L event) = Inr (token_user_info ?d, ?gs)"
      using identify_token [OF _ truthy_token_user_info] g by simp
    have n: "JStr (lit ''Admin'') \<in> set ?gs" "JStr (lit ''Viewer'') \<notin> set ?gs"
      by (simp_all add: lit_def)
    have "\<forall>r. fst (handler L event ctx) = Inr r \<longrightarrow>
            user_groups (body r) = ?gs \<and> is_admin (body r) \<and> \<not> is_viewer (body r)"
      using flags [OF i] n by simp
    with i show "snd (projr (fst (identify L event))) = ?gs
        \<and> (\<forall>r. fst (handler L event ctx) = Inr r \<longrightarrow>
              user_groups (body r) = ?gs \<and> is_admin (body r) \<and> \<not> is_viewer (body r))"
      by simp
  qed
  from p0 pe p1 p2 show ?thesis by (intro conjI)
qed

text \<open>
  C4, amended: on every event the token location, the payload decoding, the claim
  extraction and the fallback extraction hand an identity and a group list to the
  handler and raise nothing, and every response that the handler returns has
  statusCode 200 and Content-Type application/json. The handler returns a response
  when \<^verbatim>\<open>event.get("requestContext", {})\<close> is a dict, that is when the event is a JSON
  object whose requestContext is absent or a JSON object.
\<close>

theorem handler_returns_200:
  "(\<exists>ui gs lg. identify L event = (Inr (ui, gs), lg))
   \<and> (\<forall>r. fst (handler L event ctx) = Inr r \<longrightarrow>
        statusCode r = 200 \<and> headers r = [(lit ''Content-Type'', lit ''application/json'')])
   \<and> (\<forall>rc. py_get event (lit ''requestContext'') (JObj []) = Inr (JObj rc) \<longrightarrow>
        (\<exists>r. fst (handler L event ctx) = Inr r))"
proof -
  obtain ui gs lg where i: "identify L event = (Inr (ui, gs), lg)"
    using identify_total by blast
  then have h: "fst (handler L event ctx) = respond event ctx ui gs"
    using handler_identify [of L event ui gs ctx] by simp
  have p1: "\<exists>ui gs lg. identify L event = (Inr (ui, gs), lg)"
    by (rule identify_total)
  have p2: "\<forall>r. fst (handler L event ctx) = Inr r \<longrightarrow>
        statusCode r = 200 \<and> headers r = [(lit ''Content-Type'', lit ''application/json'')]"
    using respond_Inr [of event ctx ui gs] by (simp add: h)
  have p3: "\<forall>rc. py_get event (lit ''requestContext'') (JObj []) = Inr (JObj rc) \<longrightarrow>
        (\<exists>r. fst (handler L event ctx) = Inr r)"
    by (simp add: h respond_dict)
  from p1 p2 p3 show ?thesis by (intro conjI)
qed

text \<open>The handler raises on exactly the other events.\<close>

lemma handler_raises_iff:
  "(\<exists>e. fst (handler L event ctx) = Inl e)
     = (\<not> (\<exists>rc. py_get event (lit ''requestContext'') (JObj []) = Inr (JObj rc)))"
proof -
  obtain ui gs lg where "identify L event = (Inr (ui, gs), lg)"
    using identify_total by blast
  then have "fst (handler L event ctx) = respond event ctx ui gs"
    using handler_identify [of L event ui gs ctx] by simp
  then show ?thesis
    by (auto simp: respond_def split: sum.splits json.splits)
qed

section \<open>Evaluation of the example requests\<close>

lemma decode_example_groups:
  "decode_jwt_payload cpython (JStr (lit ''h.eyJjb2duaXRvOmdyb3VwcyI6IFsiQWRtaW4iLCAiWCJdfQ.s'')) =
     (Inr (JObj [(lit ''cognito:groups'', JList [JStr (lit ''Admin''), JStr (lit ''X'')])]), [])"
  by (simp add: example_simps)

lemma decode_example_list:
  "decode_jwt_payload cpython (JStr (lit ''h.WzFd.s'')) = (Inr (JList [JInt 1]), [])"
  by (simp add: example_simps)

lemma locate_gateway_event:
  "str_lower name = lit ''x-cognito-id-token'' \<Longrightarrow>
     locate_id_token (gateway_event name v rc) = Inr v"
  by (simp add: locate_id_token_def py_get_def py_items_def gateway_event_def str_lower_def
        lower_cp_def lit_def)

lemma headers_gateway_event:
  "py_get (gateway_event name v rc) (lit ''headers'') (JObj []) =
     Inr (JObj [(lit ''Accept'', JStr (lit ''*/*'')), (name, v)])"
  by (simp add: py_get_def gateway_event_def)

lemma request_context_gateway_event:
  "py_get (gateway_event name v rc) (lit ''requestContext'') (JObj []) = Inr rc"
  by (simp add: py_get_def gateway_event_def lit_def)

lemma lower_mixed_header:
  "str_lower (lit ''X-Cognito-Id-Token'') = lit ''x-cognito-id-token''"
  by (simp add: str_lower_def lower_cp_def lit_def)

theorem token_locator_first_match_witness:
  "py_get (gateway_event (lit ''X-COGNITO-ID-TOKEN'')
             (JStr (lit ''h.eyJjb2duaXRvOmdyb3VwcyI6IFsiQWRtaW4iLCAiWCJdfQ.s''))
             example_request_context) (lit ''headers'') (JObj []) =
     Inr (JObj [(lit ''Accept'', JStr (lit ''*/*'')),
                (lit ''X-COGNITO-ID-TOKEN'',
                 JStr (lit ''h.eyJjb2duaXRvOmdyb3VwcyI6IFsiQWRtaW4iLCAiWCJdfQ.s''))])
   \<and> str_lower (lit ''Accept'') \<noteq> lit ''x-cognito-id-token''
   \<and> str_lower (lit ''X-COGNITO-ID-TOKEN'') = lit ''x-cognito-id-token''
   \<and> locate_id_token (gateway_event (lit ''X-COGNITO-ID-TOKEN'')
             (JStr (lit ''h.eyJjb2duaXRvOmdyb3VwcyI6IFsiQWRtaW4iLCAiWCJdfQ.s''))
             example_request_context) =
       Inr (JStr (lit ''h.eyJjb2duaXRvOmdyb3VwcyI6IFsiQWRtaW4iLCAiWCJdfQ.s''))
   \<and> fst (get_user_info_from_token cpython (gateway_event (lit ''X-COGNITO-ID-TOKEN'')
             (JStr (lit ''h.eyJjb2duaXRvOmdyb3VwcyI6IFsiQWRtaW4iLCAiWCJdfQ.s''))
             example_request_context)) =
       Inr (token_user_info [(lit ''cognito:groups'', JList [JStr (lit ''Admin''), JStr (lit ''X'')])],
            [JStr (lit ''Admin''), JStr (lit ''X'')])
   \<and> str_lower (recase (replicate 18 True) (lit ''x-cognito-id-token'')) = lit ''x-cognito-id-token''"
proof -
  let ?tok = "lit ''h.eyJjb2duaXRvOmdyb3VwcyI6IFsiQWRtaW4iLCAiWCJdfQ.s''"
  let ?ev = "gateway_event (lit ''X-COGNITO-ID-TOKEN'') (JStr ?tok) example_request_context"
  let ?hs = "[(lit ''Accept'', JStr (lit ''*/*'')), (lit ''X-COGNITO-ID-TOKEN'', JStr ?tok)]"
  let ?d = "[(lit ''cognito:groups'', JList [JStr (lit ''Admin''), JStr (lit ''X'')])]"
  have h: "py_get ?ev (lit ''headers'') (JObj []) = Inr (JObj ?hs)"
    by (rule headers_gateway_event)
  note t = token_locator_first_match [OF h, of cpython]
  have n0: "str_lower (lit ''Accept'') \<noteq> lit ''x-cognito-id-token''"
    by (simp add: str_lower_def lit_def)
  have n1: "str_lower (lit ''X-COGNITO-ID-TOKEN'') = lit ''x-cognito-id-token''"
    by (rule lower_upper_header)
  have first: "\<forall>j<1. str_lower (fst (?hs ! j)) \<noteq> lit ''x-cognito-id-token''"
    using n0 by simp
  have "1 < length ?hs \<and> str_lower (fst (?hs ! 1)) = lit ''x-cognito-id-token''
          \<and> (\<forall>j<1. str_lower (fst (?hs ! j)) \<noteq> lit ''x-cognito-id-token'')"
    using n1 first by simp
  with t have "locate_id_token ?ev = Inr (snd (?hs ! 1))"
    by blast
  then have l: "locate_id_token ?ev = Inr (JStr ?tok)"
    by simp
  have ne: "?tok \<noteq> []" by (simp add: lit_def)
  have "1 < length ?hs \<and> ?hs ! 1 = (lit ''X-COGNITO-ID-TOKEN'', JStr ?tok)
          \<and> (\<forall>j<1. str_lower (fst (?hs ! j)) \<noteq> lit ''x-cognito-id-token'')
          \<and> ?tok \<noteq> [] \<and> fst (decode_jwt_payload cpython (JStr ?tok)) = Inr (JObj ?d) \<and> ?d \<noteq> []"
    using first ne by (simp add: decode_example_groups)
  with t have "fst (get_user_info_from_token cpython ?ev) = Inr (token_user_info ?d, spec_group_list ?d)"
    by blast
  then have g: "fst (get_user_info_from_token cpython ?ev) =
                  Inr (token_user_info ?d, [JStr (lit ''Admin''), JStr (lit ''X'')])"
    by (simp add: spec_group_list_def)
  have "length (replicate 18 True) = length (lit ''x-cognito-id-token'')"
    by (simp add: lit_def)
  with t have r: "str_lower (recase (replicate 18 True) (lit ''x-cognito-id-token'')) = lit ''x-cognito-id-token''"
    by blast
  from h n0 n1 l g r show ?thesis by (intro conjI)
qed

theorem role_flags_are_membership_witness:
  "locate_id_token (gateway_event (lit ''X-Cognito-Id-Token'')
       (JStr (lit ''h.eyJjb2duaXRvOmdyb3VwcyI6IFsiQWRtaW4iLCAiWCJdfQ.s'')) example_request_context) =
     Inr (JStr (lit ''h.eyJjb2duaXRvOmdyb3VwcyI6IFsiQWRtaW4iLCAiWCJdfQ.s''))
   \<and> truthy (JStr (lit ''h.eyJjb2duaXRvOmdyb3VwcyI6IFsiQWRtaW4iLCAiWCJdfQ.s''))
   \<and> fst (decode_jwt_payload cpython (JStr (lit ''h.eyJjb2duaXRvOmdyb3VwcyI6IFsiQWRtaW4iLCAiWCJdfQ.s''))) =
       Inr (JObj [(lit ''cognito:groups'', JList [JStr (lit ''Admin''), JStr (lit ''X'')])])
   \<and> fst (get_user_info_from_token cpython (gateway_event (lit ''X-Cognito-Id-Token'')
              (JStr (lit ''h.eyJjb2duaXRvOmdyb3VwcyI6IFsiQWRtaW4iLCAiWCJdfQ.s'')) example_request_context)) =
       Inr (token_user_info [(lit ''cognito:groups'', JList [JStr (lit ''Admin''), JStr (lit ''X'')])],
            [JStr (lit ''Admin''), JStr (lit ''X'')])
   \<and> truthy (token_user_info [(lit ''cognito:groups'', JList [JStr (lit ''Admin''), JStr (lit ''X'')])])
   \<and> (\<exists>r. fst (handler cpython (gateway_event (lit ''X-Cognito-Id-Token'')
              (JStr (lit ''h.eyJjb2duaXRvOmdyb3VwcyI6IFsiQWRtaW4iLCAiWCJdfQ.s'')) example_request_context)
              \<lparr>aws_request_id = lit ''req-1''\<rparr>) = Inr r
         \<and> user_groups (body r) = [JStr (lit ''Admin''), JStr (lit ''X'')]
         \<and> is_admin (body r) \<and> \<not> is_viewer (body r)
         \<and> is_admin (body r) = (JStr (lit ''Admin'') \<in> set (user_groups (body r))))
   \<and> fst (get_user_info_from_token cpython (gateway_event (lit ''X-Cognito-Id-Token'')
              (JStr []) example_request_context)) = Inr (JNull, [])
   \<and> (\<exists>r. fst (handler cpython (gateway_event (lit ''X-Cognito-Id-Token'')
              (JStr []) example_request_context) \<lparr>aws_request_id = lit ''req-1''\<rparr>) = Inr r
         \<and> user_groups (body r) = [] \<and> \<not> is_admin (body r) \<and> \<not> is_viewer (body r))"
proof -
  let ?tok = "JStr (lit ''h.eyJjb2duaXRvOmdyb3VwcyI6IFsiQWRtaW4iLCAiWCJdfQ.s'')"
  let ?ev = "gateway_event (lit ''X-Cognito-Id-Token'') ?tok example_request_context"
  let ?ev2 = "gateway_event (lit ''X-Cognito-Id-Token'') (JStr []) example_request_context"
  let ?ctx = "\<lparr>aws_request_id = lit ''req-1''\<rparr>"
  let ?d = "[(lit ''cognito:groups'', JList [JStr (lit ''Admin''), JStr (lit ''X'')])]"
  let ?gs = "[JStr (lit ''Admin''), JStr (lit ''X'')]"
  have a: "locate_id_token ?ev = Inr ?tok"
    by (rule locate_gateway_event [OF lower_mixed_header])
  have b: "truthy ?tok" by (simp add: lit_def)
  have c: "fst (decode_jwt_payload cpython ?tok) = Inr (JObj ?d)"
    by (simp add: decode_example_groups)
  have g: "spec_group_list ?d = ?gs"
    by (simp add: spec_group_list_def)
  have "?d \<noteq> []" by simp
  from get_user_info_from_token_dict [OF a b c this]
  have e: "fst (get_user_info_from_token cpython ?ev) = Inr (token_user_info ?d, ?gs)"
    by (simp add: g)
  have tr: "truthy (token_user_info ?d)"
    by (rule truthy_token_user_info)
  have rcx: "\<exists>rc. py_get (gateway_event n v example_request_context) (lit ''requestContext'')
               (JObj []) = Inr (JObj rc)" for n v
    by (simp add: request_context_gateway_event example_request_context_def)
  obtain r where r: "fst (handler cpython ?ev ?ctx) = Inr r"
    using handler_raises_iff [of cpython ?ev ?ctx] rcx [of "lit ''X-Cognito-Id-Token''" ?tok]
    by (cases "fst (handler cpython ?ev ?ctx)") auto
  note t = role_flags_are_membership [of cpython ?ev ?ctx ?tok]
  from t a b c r have "user_groups (body r) = ?gs \<and> is_admin (body r) \<and> \<not> is_viewer (body r)"
    by blast
  moreover from t e r have "user_groups (body r) = (if truthy (token_user_info ?d) then ?gs else [])"
    by blast
  moreover from t r have "is_admin (body r) = (JStr (lit ''Admin'') \<in> set (user_groups (body r)))"
    by blast
  ultimately have f: "\<exists>r. fst (handler cpython ?ev ?ctx) = Inr r
         \<and> user_groups (body r) = ?gs
         \<and> is_admin (body r) \<and> \<not> is_viewer (body r)
         \<and> is_admin (body r) = (JStr (lit ''Admin'') \<in> set (user_groups (body r)))"
    using r by blast
  have l2: "locate_id_token ?ev2 = Inr (JStr [])"
    by (rule locate_gateway_event [OF lower_mixed_header])
  have e2: "fst (get_user_info_from_token cpython ?ev2) = Inr (JNull, [])"
    using get_user_info_from_token_no_token [OF l2, of cpython] by simp
  obtain r2 where r2: "fst (handler cpython ?ev2 ?ctx) = Inr r2"
    using handler_raises_iff [of cpython ?ev2 ?ctx] rcx [of "lit ''X-Cognito-Id-Token''" "JStr []"]
    by (cases "fst (handler cpython ?ev2 ?ctx)") auto
  note t2 = role_flags_are_membership [of cpython ?ev2 ?ctx ?tok]
  from t2 e2 r2 have "user_groups (body r2) = (if truthy JNull then [] else [])
      \<and> is_admin (body r2) = (truthy JNull \<and> JStr (lit ''Admin'') \<in> set [])
      \<and> is_viewer (body r2) = (truthy JNull \<and> JStr (lit ''Viewer'') \<in> set [])"
    by blast
  then have "user_groups (body r2) = [] \<and> \<not> is_admin (body r2) \<and> \<not> is_viewer (body r2)"
    by simp
  with r2 have f2: "\<exists>r. fst (handler cpython ?ev2 ?ctx) = Inr r
         \<and> user_groups (body r) = [] \<and> \<not> is_admin (body r) \<and> \<not> is_viewer (body r)"
    by blast
  from a b c e tr f e2 f2 show ?thesis by (intro conjI)
qed

text \<open>
  The handler reads \<^verbatim>\<open>requestContext\<close> a second time outside every \<^verbatim>\<open>try\<close>: on an event
  whose requestContext is null it raises and returns no response.
\<close>

theorem handler_raises_on_null_request_context:
  "fst (handler cpython (JObj [(lit ''headers'', JObj []), (lit ''requestContext'', JNull)])
         \<lparr>aws_request_id = lit ''req-1''\<rparr>) = Inl AttributeError"
  by (simp add: handler_def identify_def get_user_info_from_token_def
        get_user_info_from_token_try_def locate_id_token_def py_get_def py_items_def
        get_user_from_cognito_context_def get_user_from_cognito_context_try_def respond_def lit_def)

theorem handler_returns_200_witness:
  "py_get (gateway_event (lit ''X-Cognito-Id-Token'') (JStr (lit ''not-a-token''))
             example_request_context) (lit ''requestContext'') (JObj []) =
     Inr (JObj [(lit ''identity'', JObj [(lit ''sourceIp'', JStr (lit ''10.0.0.1''))]),
                (lit ''requestId'', JStr (lit ''r-1''))])
   \<and> (\<exists>r. fst (handler cpython (gateway_event (lit ''X-Cognito-Id-Token'')
                 (JStr (lit ''not-a-token'')) example_request_context)
                 \<lparr>aws_request_id = lit ''req-1''\<rparr>) = Inr r
          \<and> statusCode r = 200
          \<and> headers r = [(lit ''Content-Type'', lit ''application/json'')])"
proof -
  let ?ev = "gateway_event (lit ''X-Cognito-Id-Token'') (JStr (lit ''not-a-token''))
               example_request_context"
  have h: "py_get ?ev (lit ''requestContext'') (JObj []) =
             Inr (JObj [(lit ''identity'', JObj [(lit ''sourceIp'', JStr (lit ''10.0.0.1''))]),
                        (lit ''requestId'', JStr (lit ''r-1''))])"
    by (simp add: request_context_gateway_event example_request_context_def)
  from handler_returns_200 [of cpython ?ev "\<lparr>aws_request_id = lit ''req-1''\<rparr>"] h
  have "\<exists>r. fst (handler cpython ?ev \<lparr>aws_request_id = lit ''req-1''\<rparr>) = Inr r
          \<and> statusCode r = 200
          \<and> headers r = [(lit ''Content-Type'', lit ''application/json'')]"
    by metis
  with h show ?thesis by (intro conjI)
qed

section \<open>The fallback\<close>

lemma no_token_sentinel:
  assumes "no_token_or_decode_fails L event"
  shows "fst (get_user_info_from_token L event) = Inr (JNull, [])"
proof (cases "locate_id_token event")
  case (Inl e)
  then show ?thesis
    by (simp add: get_user_info_from_token_def get_user_info_from_token_try_def)
next
  case (Inr v)
  show ?thesis
  proof (cases "truthy v")
    case False
    from get_user_info_from_token_no_token [OF Inr False] show ?thesis by simp
  next
    case True
    with assms Inr have "fst (decode_jwt_payload L v) = Inr JNull"
      by (simp add: no_token_or_decode_fails_def)
    moreover have "\<not> nonempty_object JNull" by simp
    ultimately show ?thesis
      using get_user_info_from_token_falsy_payload [OF Inr True] by blast
  qed
qed

lemma handler_fallback:
  assumes "fst (get_user_info_from_token L event) = Inr (JNull, [])"
  shows "fst (handler L event ctx) =
           (case fst (get_user_from_cognito_context event) of
              Inl e \<Rightarrow> Inl e
            | Inr (ui, gs) \<Rightarrow> respond event ctx ui gs)"
proof -
  have i: "fst (identify L event) = fst (get_user_from_cognito_context event)"
    using identify_fallback [OF assms] by simp
  obtain ui lg where f: "get_user_from_cognito_context event = (Inr (ui, []), lg)"
    using get_user_from_cognito_context_total by blast
  with i have "fst (identify L event) = Inr (ui, [])" by simp
  from handler_identify [OF this] f show ?thesis by simp
qed

lemma fallback_identity_dict:
  assumes "py_get event (lit ''requestContext'') (JObj []) = Inr (JObj rc)"
    and "py_get (JObj rc) (lit ''identity'') (JObj []) = Inr (JObj i)"
  shows "get_user_from_cognito_context event =
           (Inr (context_user_info i, []), [(INFO, ''Cognito context user info: '')])"
  using assms
  by (simp add: get_user_from_cognito_context_def get_user_from_cognito_context_try_def)

lemma fallback_logs_exception:
  assumes "fst (get_user_from_cognito_context_try event) = Inl e"
  shows "get_user_from_cognito_context event =
           (Inr (JNull, []), [(ERROR, ''Error extracting user from Cognito context: '')])"
proof -
  have "snd (get_user_from_cognito_context_try event) = []
          \<or> (\<exists>r. fst (get_user_from_cognito_context_try event) = Inr r)"
    by (auto simp: get_user_from_cognito_context_try_def split: sum.splits json.splits)
  with assms show ?thesis
    by (cases "get_user_from_cognito_context_try event")
       (auto simp: get_user_from_cognito_context_def)
qed

text \<open>
  C7, amended: the fallback extractor raises on no event and its group list is always
  empty; when a step of its \<^verbatim>\<open>try\<close> block raises, it logs the error and returns a null
  identity. When no token is located or decoding fails, and
  \<^verbatim>\<open>event.get("requestContext", {})\<close> is a dict: if its identity is absent or a dict, the
  response has status 200, an identity made of cognito_identity_id,
  cognito_auth_provider, source_ip and user_agent, each null when the field is absent,
  an empty group list and both role flags false; if the fallback raised inside, the
  response has status 200, a null identity and an empty group list.
\<close>

theorem fallback_identity_from_request_context:
  "(\<exists>ui lg. get_user_from_cognito_context event = (Inr (ui, []), lg))
   \<and> (\<forall>e. fst (get_user_from_cognito_context_try event) = Inl e \<longrightarrow>
        get_user_from_cognito_context event =
          (Inr (JNull, []), [(ERROR, ''Error extracting user from Cognito context: '')]))
   \<and> (\<forall>rc i. no_token_or_decode_fails L event
          \<and> py_get event (lit ''requestContext'') (JObj []) = Inr (JObj rc)
          \<and> py_get (JObj rc) (lit ''identity'') (JObj []) = Inr (JObj i) \<longrightarrow>
        (\<exists>r. fst (handler L event ctx) = Inr r \<and> statusCode r = 200
           \<and> user_info (body r) =
               JObj [(lit ''cognito_identity_id'',
                      case map_of i (lit ''cognitoIdentityId'') of Some v \<Rightarrow> v | None \<Rightarrow> JNull),
                     (lit ''cognito_auth_provider'',
                      case map_of i (lit ''cognitoAuthenticationProvider'') of Some v \<Rightarrow> v | None \<Rightarrow> JNull),
                     (lit ''source_ip'',
                      case map_of i (lit ''sourceIp'') of Some v \<Rightarrow> v | None \<Rightarrow> JNull),
                     (lit ''user_agent'',
                      case map_of i (lit ''userAgent'') of Some v \<Rightarrow> v | None \<Rightarrow> JNull)]
           \<and> user_groups (body r) = [] \<and> \<not> is_admin (body r) \<and> \<not> is_viewer (body r)))
   \<and> (\<forall>rc e. no_token_or_decode_fails L event
          \<and> py_get event (lit ''requestContext'') (JObj []) = Inr (JObj rc)
          \<and> fst (get_user_from_cognito_context_try event) = Inl e \<longrightarrow>
        (\<exists>r. fst (handler L event ctx) = Inr r \<and> statusCode r = 200
           \<and> user_info (body r) = JNull \<and> user_groups (body r) = []
           \<and> \<not> is_admin (body r) \<and> \<not> is_viewer (body r)))"
proof -
  have p1: "\<exists>ui lg. get_user_from_cognito_context event = (Inr (ui, []), lg)"
    by (rule get_user_from_cognito_context_total)
  have p2: "\<forall>e. fst (get_user_from_cognito_context_try event) = Inl e \<longrightarrow>
        get_user_from_cognito_context event =
          (Inr (JNull, []), [(ERROR, ''Error extracting user from Cognito context: '')])"
    using fallback_logs_exception by blast
  have p3: "\<forall>rc i. no_token_or_decode_fails L event
          \<and> py_get event (lit ''requestContext'') (JObj []) = Inr (JObj rc)
          \<and> py_get (JObj rc) (lit ''identity'') (JObj []) = Inr (JObj i) \<longrightarrow>
        (\<exists>r. fst (handler L event ctx) = Inr r \<and> statusCode r = 200
           \<and> user_info (body r) =
               JObj [(lit ''cognito_identity_id'',
                      case map_of i (lit ''cognitoIdentityId'') of Some v \<Rightarrow> v | None \<Rightarrow> JNull),
                     (lit ''cognito_auth_provider'',
                      case map_of i (lit ''cognitoAuthenticationProvider'') of Some v \<Rightarrow> v | None \<Rightarrow> JNull),
                     (lit ''source_ip'',
                      case map_of i (lit ''sourceIp'') of Some v \<Rightarrow> v | None \<Rightarrow> JNull),
                     (lit ''user_agent'',
                      case map_of i (lit ''userAgent'') of Some v \<Rightarrow> v | None \<Rightarrow> JNull)]
           \<and> user_groups (body r) = [] \<and> \<not> is_admin (body r) \<and> \<not> is_viewer (body r))"
  proof (intro allI impI)
    fix rc i
    assume a: "no_token_or_decode_fails L event
          \<and> py_get event (lit ''requestContext'') (JObj []) = Inr (JObj rc)
          \<and> py_get (JObj rc) (lit ''identity'') (JObj []) = Inr (JObj i)"
    then have f: "get_user_from_cognito_context event =
                    (Inr (context_user_info i, []), [(INFO, ''Cognito context user info: '')])"
      by (intro fallback_identity_dict) auto
    have "fst (handler L event ctx) =
            (case fst (get_user_from_cognito_context event) of
               Inl e \<Rightarrow> Inl e
             | Inr (ui, gs) \<Rightarrow> respond event ctx ui gs)"
      using a by (intro handler_fallback no_token_sentinel) auto
    then have "fst (handler L event ctx) = respond event ctx (context_user_info i) []"
      by (simp add: f)
    moreover have "py_get event (lit ''requestContext'') (JObj []) = Inr (JObj rc)"
      using a by simp
    ultimately show "\<exists>r. fst (handler L event ctx) = Inr r \<and> statusCode r = 200
           \<and> user_info (body r) =
               JObj [(lit ''cognito_identity_id'',
                      case map_of i (lit ''cognitoIdentityId'') of Some v \<Rightarrow> v | None \<Rightarrow> JNull),
                     (lit ''cognito_auth_provider'',
                      case map_of i (lit ''cognitoAuthenticationProvider'') of Some v \<Rightarrow> v | None \<Rightarrow> JNull),
                     (lit ''source_ip'',
                      case map_of i (lit ''sourceIp'') of Some v \<Rightarrow> v | None \<Rightarrow> JNull),
                     (lit ''user_agent'',
                      case map_of i (lit ''userAgent'') of Some v \<Rightarrow> v | None \<Rightarrow> JNull)]
           \<and> user_groups (body r) = [] \<and> \<not> is_admin (body r) \<and> \<not> is_viewer (body r)"
      by (simp add: respond_dict context_user_info_def dget_def)
  qed
  have p4: "\<forall>rc e. no_token_or_decode_fails L event
          \<and> py_get event (lit ''requestContext'') (JObj []) = Inr (JObj rc)
          \<and> fst (get_user_from_cognito_context_try event) = Inl e \<longrightarrow>
        (\<exists>r. fst (handler L event ctx) = Inr r \<and> statusCode r = 200
           \<and> user_info (body r) = JNull \<and> user_groups (body r) = []
           \<and> \<not> is_admin (body r) \<and> \<not> is_viewer (body r))"
  proof (intro allI impI)
    fix rc e
    assume a: "no_token_or_decode_fails L event
          \<and> py_get event (lit ''requestContext'') (JObj []) = Inr (JObj rc)
          \<and> fst (get_user_from_cognito_context_try event) = Inl e"
    then have f: "get_user_from_cognito_context event =
          (Inr (JNull, []), [(ERROR, ''Error extracting user from Cognito context: '')])"
      by (intro fallback_logs_exception [of event e]) auto
    have "fst (handler L event ctx) =
            (case fst (get_user_from_cognito_context event) of
               Inl e \<Rightarrow> Inl e
             | Inr (ui, gs) \<Rightarrow> respond event ctx ui gs)"
      using a by (intro handler_fallback no_token_sentinel) auto
    then have "fst (handler L event ctx) = respond event ctx JNull []"
      by (simp add: f)
    moreover have "py_get event (lit ''requestContext'') (JObj []) = Inr (JObj rc)"
      using a by simp
    ultimately show "\<exists>r. fst (handler L event ctx) = Inr r \<and> statusCode r = 200
           \<and> user_info (body r) = JNull \<and> user_groups (body r) = []
           \<and> \<not> is_admin (body r) \<and> \<not> is_viewer (body r)"
      by (simp add: respond_dict)
  qed
  from p1 p2 p3 p4 show ?thesis by (intro conjI)
qed

text \<open>
  On an event whose requestContext is no JSON object the fallback raises inside, logs
  and returns the null identity, but the handler then raises: there is no response.
\<close>

theorem fallback_exception_without_response:
  "fst (get_user_from_cognito_context_try (JObj [(lit ''headers'', JObj []), (lit ''requestContext'', JList [])])) =
     Inl AttributeError
   \<and> get_user_from_cognito_context (JObj [(lit ''headers'', JObj []), (lit ''requestContext'', JList [])]) =
       (Inr (JNull, []), [(ERROR, ''Error extracting user from Cognito context: '')])
   \<and> fst (handler cpython (JObj [(lit ''headers'', JObj []), (lit ''requestContext'', JList [])])
            \<lparr>aws_request_id = lit ''req-1''\<rparr>) = Inl AttributeError"
  by (simp add: handler_def identify_def get_user_info_from_token_def
        get_user_info_from_token_try_def locate_id_token_def py_get_def py_items_def
        get_user_from_cognito_context_def get_user_from_cognito_context_try_def respond_def lit_def)

lemma fallback_example:
  "get_user_from_cognito_context (gateway_event name v example_request_context) =
     (Inr (context_user_info [(lit ''sourceIp'', JStr (lit ''10.0.0.1''))], []),
      [(INFO, ''Cognito context user info: '')])"
proof -
  let ?i = "[(lit ''sourceIp'', JStr (lit ''10.0.0.1''))]"
  let ?rc = "[(lit ''identity'', JObj ?i), (lit ''requestId'', JStr (lit ''r-1''))]"
  have a: "py_get (gateway_event name v example_request_context) (lit ''requestContext'') (JObj []) =
             Inr (JObj ?rc)"
    by (simp add: request_context_gateway_event example_request_context_def)
  have b: "py_get (JObj ?rc) (lit ''identity'') (JObj []) = Inr (JObj ?i)"
    by (simp add: py_get_def)
  from fallback_identity_dict [OF a b] show ?thesis .
qed

theorem fallback_identity_from_request_context_witness:
  "no_token_or_decode_fails cpython
     (gateway_event (lit ''Accept-Language'') (JStr (lit ''en'')) example_request_context)
   \<and> py_get (gateway_event (lit ''Accept-Language'') (JStr (lit ''en'')) example_request_context)
        (lit ''requestContext'') (JObj []) =
       Inr (JObj [(lit ''identity'', JObj [(lit ''sourceIp'', JStr (lit ''10.0.0.1''))]),
                  (lit ''requestId'', JStr (lit ''r-1''))])
   \<and> py_get (JObj [(lit ''identity'', JObj [(lit ''sourceIp'', JStr (lit ''10.0.0.1''))]),
                   (lit ''requestId'', JStr (lit ''r-1''))]) (lit ''identity'') (JObj []) =
       Inr (JObj [(lit ''sourceIp'', JStr (lit ''10.0.0.1''))])
   \<and> (\<exists>r. fst (handler cpython
                 (gateway_event (lit ''Accept-Language'') (JStr (lit ''en'')) example_request_context)
                 \<lparr>aws_request_id = lit ''req-1''\<rparr>) = Inr r
          \<and> statusCode r = 200
          \<and> user_info (body r) =
              JObj [(lit ''cognito_identity_id'', JNull), (lit ''cognito_auth_provider'', JNull),
                    (lit ''source_ip'', JStr (lit ''10.0.0.1'')), (lit ''user_agent'', JNull)]
          \<and> user_groups (body r) = [] \<and> \<not> is_admin (body r) \<and> \<not> is_viewer (body r))
   \<and> no_token_or_decode_fails cpython
       (gateway_event (lit ''Accept-Language'') (JStr (lit ''en'')) (JObj [(lit ''identity'', JNull)]))
   \<and> fst (get_user_from_cognito_context_try
        (gateway_event (lit ''Accept-Language'') (JStr (lit ''en'')) (JObj [(lit ''identity'', JNull)]))) =
       Inl AttributeError
   \<and> get_user_from_cognito_context
        (gateway_event (lit ''Accept-Language'') (JStr (lit ''en'')) (JObj [(lit ''identity'', JNull)])) =
       (Inr (JNull, []), [(ERROR, ''Error extracting user from Cognito context: '')])
   \<and> (\<exists>r. fst (handler cpython
                 (gateway_event (lit ''Accept-Language'') (JStr (lit ''en'')) (JObj [(lit ''identity'', JNull)]))
                 \<lparr>aws_request_id = lit ''req-1''\<rparr>) = Inr r
          \<and> statusCode r = 200 \<and> user_info (body r) = JNull \<and> user_groups (body r) = [])"
proof -
  let ?ev = "gateway_event (lit ''Accept-Language'') (JStr (lit ''en'')) example_request_context"
  let ?ev2 = "gateway_event (lit ''Accept-Language'') (JStr (lit ''en'')) (JObj [(lit ''identity'', JNull)])"
  let ?ctx = "\<lparr>aws_request_id = lit ''req-1''\<rparr>"
  let ?i = "[(lit ''sourceIp'', JStr (lit ''10.0.0.1''))]"
  let ?rc = "[(lit ''identity'', JObj ?i), (lit ''requestId'', JStr (lit ''r-1''))]"
  have l: "locate_id_token (gateway_event (lit ''Accept-Language'') (JStr (lit ''en'')) rc) = Inr JNull" for rc
    by (simp add: locate_id_token_def py_get_def py_items_def gateway_event_def str_lower_def
          lower_cp_def lit_def)
  have a: "no_token_or_decode_fails cpython ?ev"
    by (simp add: no_token_or_decode_fails_def l)
  have b: "py_get ?ev (lit ''requestContext'') (JObj []) = Inr (JObj ?rc)"
    by (simp add: request_context_gateway_event example_request_context_def)
  have c: "py_get (JObj ?rc) (lit ''identity'') (JObj []) = Inr (JObj ?i)"
    by (simp add: py_get_def)
  have m: "map_of ?i (lit ''sourceIp'') = Some (JStr (lit ''10.0.0.1''))"
      "map_of ?i (lit ''cognitoIdentityId'') = None"
      "map_of ?i (lit ''cognitoAuthenticationProvider'') = None"
      "map_of ?i (lit ''userAgent'') = None"
    by (simp_all add: lit_def)
  from fallback_identity_from_request_context [of ?ev cpython ?ctx] a b c
  have "\<exists>r. fst (handler cpython ?ev ?ctx) = Inr r \<and> statusCode r = 200
           \<and> user_info (body r) =
               JObj [(lit ''cognito_identity_id'',
                      case map_of ?i (lit ''cognitoIdentityId'') of Some v \<Rightarrow> v | None \<Rightarrow> JNull),
                     (lit ''cognito_auth_provider'',
                      case map_of ?i (lit ''cognitoAuthenticationProvider'') of Some v \<Rightarrow> v | None \<Rightarrow> JNull),
                     (lit ''source_ip'',
                      case map_of ?i (lit ''sourceIp'') of Some v \<Rightarrow> v | None \<Rightarrow> JNull),
                     (lit ''user_agent'',
                      case map_of ?i (lit ''userAgent'') of Some v \<Rightarrow> v | None \<Rightarrow> JNull)]
           \<and> user_groups (body r) = [] \<and> \<not> is_admin (body r) \<and> \<not> is_viewer (body r)"
    by blast
  then have d: "\<exists>r. fst (handler cpython ?ev ?ctx) = Inr r \<and> statusCode r = 200
          \<and> user_info (body r) =
              JObj [(lit ''cognito_identity_id'', JNull), (lit ''cognito_auth_provider'', JNull),
                    (lit ''source_ip'', JStr (lit ''10.0.0.1'')), (lit ''user_agent'', JNull)]
          \<and> user_groups (body r) = [] \<and> \<not> is_admin (body r) \<and> \<not> is_viewer (body r)"
    by (simp only: m option.case)
  have a2: "no_token_or_decode_fails cpython ?ev2"
    by (simp add: no_token_or_decode_fails_def l)
  have b2: "py_get ?ev2 (lit ''requestContext'') (JObj []) = Inr (JObj [(lit ''identity'', JNull)])"
    by (rule request_context_gateway_event)
  have b3: "py_get (JObj [(lit ''identity'', JNull)]) (lit ''identity'') (JObj []) = Inr JNull"
    by (simp add: py_get_def)
  have c2: "fst (get_user_from_cognito_context_try ?ev2) = Inl AttributeError"
    by (simp add: get_user_from_cognito_context_try_def b2 b3)
  note t2 = fallback_identity_from_request_context [of ?ev2 cpython ?ctx]
  from t2 c2 have e2: "get_user_from_cognito_context ?ev2 =
       (Inr (JNull, []), [(ERROR, ''Error extracting user from Cognito context: '')])"
    by blast
  from t2 a2 b2 c2 have "\<exists>r. fst (handler cpython ?ev2 ?ctx) = Inr r \<and> statusCode r = 200
           \<and> user_info (body r) = JNull \<and> user_groups (body r) = []
           \<and> \<not> is_admin (body r) \<and> \<not> is_viewer (body r)"
    by blast
  then have d2: "\<exists>r. fst (handler cpython ?ev2 ?ctx) = Inr r \<and> statusCode r = 200
          \<and> user_info (body r) = JNull \<and> user_groups (body r) = []"
    by blast
  from a b c d a2 c2 e2 d2 show ?thesis by (intro conjI)
qed

text \<open>
  C10: when the first header that matches x-cognito-id-token carries a falsy value,
  such as the empty string, the extractor logs that no header was found and returns
  the null identity with an empty group list; the result does not depend on the
  library, since the value is never decoded. The handler then takes the identity of
  the fallback.
\<close>

theorem falsy_header_value_is_no_token:
  assumes "py_get event (lit ''headers'') (JObj []) = Inr (JObj hs)"
    and "i < length hs" and "str_lower (fst (hs ! i)) = lit ''x-cognito-id-token''"
    and "\<forall>j<i. str_lower (fst (hs ! j)) \<noteq> lit ''x-cognito-id-token''"
    and "\<not> truthy (snd (hs ! i))"
  shows "get_user_info_from_token L event =
           (Inr (JNull, []), [(WARNING, ''No X-Cognito-Id-Token header found'')])
       \<and> get_user_info_from_token L' event = get_user_info_from_token L event
       \<and> fst (handler L event ctx) =
           (case fst (get_user_from_cognito_context event) of
              Inl e \<Rightarrow> Inl e
            | Inr (ui, gs) \<Rightarrow> respond event ctx ui gs)"
proof -
  have "find_id_token hs JNull = snd (hs ! i)"
    using assms(2,3,4) by (rule find_id_token_first)
  then have l: "locate_id_token event = Inr (snd (hs ! i))"
    by (simp add: locate_id_token_headers [OF assms(1)])
  have a: "get_user_info_from_token M event =
             (Inr (JNull, []), [(WARNING, ''No X-Cognito-Id-Token header found'')])" for M
    using l assms(5) by (rule get_user_info_from_token_no_token)
  have "fst (get_user_info_from_token L event) = Inr (JNull, [])"
    by (simp add: a)
  from handler_fallback [OF this] a [of L] a [of L'] show ?thesis
    by simp
qed

theorem falsy_header_value_is_no_token_witness:
  "py_get (gateway_event (lit ''X-Cognito-Id-Token'') (JStr []) example_request_context)
      (lit ''headers'') (JObj []) =
     Inr (JObj [(lit ''Accept'', JStr (lit ''*/*'')), (lit ''X-Cognito-Id-Token'', JStr [])])
   \<and> str_lower (lit ''X-Cognito-Id-Token'') = lit ''x-cognito-id-token''
   \<and> str_lower (lit ''Accept'') \<noteq> lit ''x-cognito-id-token''
   \<and> \<not> truthy (JStr [])
   \<and> get_user_info_from_token cpython
        (gateway_event (lit ''X-Cognito-Id-Token'') (JStr []) example_request_context) =
       (Inr (JNull, []), [(WARNING, ''No X-Cognito-Id-Token header found'')])
   \<and> fst (handler cpython
             (gateway_event (lit ''X-Cognito-Id-Token'') (JStr []) example_request_context)
             \<lparr>aws_request_id = lit ''req-1''\<rparr>) =
       respond (gateway_event (lit ''X-Cognito-Id-Token'') (JStr []) example_request_context)
         \<lparr>aws_request_id = lit ''req-1''\<rparr>
         (context_user_info [(lit ''sourceIp'', JStr (lit ''10.0.0.1''))]) []"
proof -
  let ?ev = "gateway_event (lit ''X-Cognito-Id-Token'') (JStr []) example_request_context"
  let ?hs = "[(lit ''Accept'', JStr (lit ''*/*'')), (lit ''X-Cognito-Id-Token'', JStr [])]"
  let ?ctx = "\<lparr>aws_request_id = lit ''req-1''\<rparr>"
  have h: "py_get ?ev (lit ''headers'') (JObj []) = Inr (JObj ?hs)"
    by (rule headers_gateway_event)
  have n0: "str_lower (lit ''Accept'') \<noteq> lit ''x-cognito-id-token''"
    by (simp add: str_lower_def lit_def)
  have n1: "str_lower (lit ''X-Cognito-Id-Token'') = lit ''x-cognito-id-token''"
    by (rule lower_mixed_header)
  have i1: "1 < length ?hs" by simp
  have i2: "str_lower (fst (?hs ! 1)) = lit ''x-cognito-id-token''"
    using n1 by simp
  have i3: "\<forall>j<1. str_lower (fst (?hs ! j)) \<noteq> lit ''x-cognito-id-token''"
    using n0 by simp
  have i4: "\<not> truthy (snd (?hs ! 1))" by simp
  have f: "\<not> truthy (JStr [])" by simp
  note t = falsy_header_value_is_no_token [OF h i1 i2 i3 i4, of cpython cpython ?ctx]
  have fb: "get_user_from_cognito_context ?ev =
              (Inr (context_user_info [(lit ''sourceIp'', JStr (lit ''10.0.0.1''))], []),
               [(INFO, ''Cognito context user info: '')])"
    by (rule fallback_example)
  from t have a: "get_user_info_from_token cpython ?ev =
       (Inr (JNull, []), [(WARNING, ''No X-Cognito-Id-Token header found'')])"
    by blast
  from t have "fst (handler cpython ?ev ?ctx) =
           (case fst (get_user_from_cognito_context ?ev) of
              Inl e \<Rightarrow> Inl e
            | Inr (ui, gs) \<Rightarrow> respond ?ev ?ctx ui gs)"
    by blast
  then have b: "fst (handler cpython ?ev ?ctx) =
       respond ?ev ?ctx (context_user_info [(lit ''sourceIp'', JStr (lit ''10.0.0.1''))]) []"
    by (simp add: fb)
  from h n1 n0 f a b show ?thesis by (intro conjI)
qed

text \<open>
  C9: when the located token decodes to a JSON value that is not an object with at
  least one member (the empty object, null, false, a number, a string or an array),
  the extractor returns the null identity with an empty group list, the value it
  returns for every event whose token is absent or malformed, and the handler takes
  the identity of the fallback.
\<close>

theorem non_object_payload_falls_back:
  assumes "locate_id_token event = Inr id_token" and "truthy id_token"
    and "fst (decode_jwt_payload L id_token) = Inr payload"
    and "\<not> nonempty_object payload"
  shows "fst (get_user_info_from_token L event) = Inr (JNull, [])
       \<and> (\<forall>event'. no_token_or_decode_fails L event' \<longrightarrow>
            fst (get_user_info_from_token L event') = fst (get_user_info_from_token L event))
       \<and> fst (handler L event ctx) =
           (case fst (get_user_from_cognito_context event) of
              Inl e \<Rightarrow> Inl e
            | Inr (ui, gs) \<Rightarrow> respond event ctx ui gs)"
proof -
  have a: "fst (get_user_info_from_token L event) = Inr (JNull, [])"
    using assms by (rule get_user_info_from_token_falsy_payload)
  have b: "\<forall>event'. no_token_or_decode_fails L event' \<longrightarrow>
            fst (get_user_info_from_token L event') = fst (get_user_info_from_token L event)"
    using no_token_sentinel a by simp
  from a b handler_fallback [OF a] show ?thesis by (intro conjI)
qed

theorem non_object_payload_falls_back_witness:
  "locate_id_token (gateway_event (lit ''X-Cognito-Id-Token'') (JStr (lit ''h.WzFd.s''))
      example_request_context) = Inr (JStr (lit ''h.WzFd.s''))
   \<and> truthy (JStr (lit ''h.WzFd.s''))
   \<and> fst (decode_jwt_payload cpython (JStr (lit ''h.WzFd.s''))) = Inr (JList [JInt 1])
   \<and> \<not> nonempty_object (JList [JInt 1])
   \<and> fst (get_user_info_from_token cpython
        (gateway_event (lit ''X-Cognito-Id-Token'') (JStr (lit ''h.WzFd.s'')) example_request_context)) =
       Inr (JNull, [])
   \<and> locate_id_token (gateway_event (lit ''X-Cognito-Id-Token'') (JStr (lit ''h.e30.s''))
      example_request_context) = Inr (JStr (lit ''h.e30.s''))
   \<and> truthy (JStr (lit ''h.e30.s''))
   \<and> fst (decode_jwt_payload cpython (JStr (lit ''h.e30.s''))) = Inr (JObj [])
   \<and> \<not> nonempty_object (JObj [])
   \<and> fst (handler cpython
        (gateway_event (lit ''X-Cognito-Id-Token'') (JStr (lit ''h.e30.s'')) example_request_context)
        \<lparr>aws_request_id = lit ''req-1''\<rparr>) =
       respond (gateway_event (lit ''X-Cognito-Id-Token'') (JStr (lit ''h.e30.s'')) example_request_context)
         \<lparr>aws_request_id = lit ''req-1''\<rparr>
         (context_user_info [(lit ''sourceIp'', JStr (lit ''10.0.0.1''))]) []"
proof -
  let ?ev = "gateway_event (lit ''X-Cognito-Id-Token'') (JStr (lit ''h.WzFd.s'')) example_request_context"
  let ?ev2 = "gateway_event (lit ''X-Cognito-Id-Token'') (JStr (lit ''h.e30.s'')) example_request_context"
  let ?ctx = "\<lparr>aws_request_id = lit ''req-1''\<rparr>"
  have a: "locate_id_token ?ev = Inr (JStr (lit ''h.WzFd.s''))"
    by (rule locate_gateway_event [OF lower_mixed_header])
  have b: "truthy (JStr (lit ''h.WzFd.s''))" by (simp add: lit_def)
  have c: "fst (decode_jwt_payload cpython (JStr (lit ''h.WzFd.s''))) = Inr (JList [JInt 1])"
    by (simp add: decode_example_list)
  have d: "\<not> nonempty_object (JList [JInt 1])" by simp
  from non_object_payload_falls_back [OF a b c d, of ?ctx]
  have e: "fst (get_user_info_from_token cpython ?ev) = Inr (JNull, [])"
    by blast
  have a2: "locate_id_token ?ev2 = Inr (JStr (lit ''h.e30.s''))"
    by (rule locate_gateway_event [OF lower_mixed_header])
  have b2: "truthy (JStr (lit ''h.e30.s''))" by (simp add: lit_def)
  have c2: "fst (decode_jwt_payload cpython (JStr (lit ''h.e30.s''))) = Inr (JObj [])"
    by (simp add: decode_example_empty)
  have d2: "\<not> nonempty_object (JObj [])" by simp
  have fb: "get_user_from_cognito_context ?ev2 =
              (Inr (context_user_info [(lit ''sourceIp'', JStr (lit ''10.0.0.1''))], []),
               [(INFO, ''Cognito context user info: '')])"
    by (rule fallback_example)
  from non_object_payload_falls_back [OF a2 b2 c2 d2, of ?ctx]
  have "fst (handler cpython ?ev2 ?ctx) =
           (case fst (get_user_from_cognito_context ?ev2) of
              Inl e \<Rightarrow> Inl e
            | Inr (ui, gs) \<Rightarrow> respond ?ev2 ?ctx ui gs)"
    by blast
  then have e2: "fst (handler cpython ?ev2 ?ctx) =
       respond ?ev2 ?ctx (context_user_info [(lit ''sourceIp'', JStr (lit ''10.0.0.1''))]) []"
    by (simp add: fb)
  from a b c d e a2 b2 c2 d2 e2 show ?thesis by (intro conjI)
qed

section \<open>The round trip\<close>

lemma str_split_no_sep: "sep \<notin> set s \<Longrightarrow> str_split sep s = [s]"
  by (induction s) auto

lemma str_split_at_sep:
  "sep \<notin> set a \<Longrightarrow> str_split sep (a @ sep # rest) = a # str_split sep rest"
  by (induction a) auto

lemma str_split_jwt:
  assumes "46 \<notin> set h" and "46 \<notin> set p" and "46 \<notin> set s"
  shows "str_split 46 (jwt h p s) = [h, p, s]"
  using assms by (simp add: jwt_def str_split_at_sep str_split_no_sep)

lemma b64_char_cases:
  "(65 \<le> b64_char v \<and> b64_char v \<le> 90) \<or> (97 \<le> b64_char v \<and> b64_char v \<le> 122)
   \<or> (48 \<le> b64_char v \<and> b64_char v \<le> 57) \<or> b64_char v = 45 \<or> b64_char v = 95"
  by (auto simp: b64_char_def)

lemma b64_char_not_pad: "b64_char v \<noteq> 61"
  using b64_char_cases [of v] by auto

lemma b64_char_not_dot: "b64_char v \<noteq> 46"
  using b64_char_cases [of v] by auto

lemma b64_char_neq:
  "61 \<noteq> b64_char v" and "46 \<noteq> b64_char v"
  using b64_char_cases [of v] by auto

lemma b64_char_ascii: "b64_char v < 128"
  using b64_char_cases [of v] by auto

lemma b64_value_char: "v < 64 \<Longrightarrow> b64_value (b64_char v) = Some v"
  by (auto simp: b64_value_def b64_char_def)

text \<open>The shape of an encoding: characters of the alphabet, then at most two \<^verbatim>\<open>=\<close>.\<close>

lemma urlsafe_b64encode_shape:
  "\<exists>cs k. urlsafe_b64encode bs = cs @ replicate k 61 \<and> k \<le> 2 \<and> 61 \<notin> set cs
      \<and> 46 \<notin> set cs \<and> (length cs + k) mod 4 = 0"
proof (induction bs rule: urlsafe_b64encode.induct)
  case 1
  show ?case
    by (rule exI [of _ "[]"], rule exI [of _ 0]) simp
next
  case (2 a)
  let ?cs = "[b64_char (unat a div 4), b64_char (unat a mod 4 * 16)]"
  have "urlsafe_b64encode [a] = ?cs @ replicate 2 61 \<and> (2::nat) \<le> 2 \<and> 61 \<notin> set ?cs
      \<and> 46 \<notin> set ?cs \<and> (length ?cs + 2) mod 4 = 0"
    by (simp add: b64_char_neq b64_char_not_pad b64_char_not_dot numeral_2_eq_2)
  then show ?case by (intro exI)
next
  case (3 a b)
  let ?cs = "[b64_char (unat a div 4), b64_char (unat a mod 4 * 16 + unat b div 16),
      b64_char (unat b mod 16 * 4)]"
  have "urlsafe_b64encode [a, b] = ?cs @ replicate 1 61 \<and> (1::nat) \<le> 2 \<and> 61 \<notin> set ?cs
      \<and> 46 \<notin> set ?cs \<and> (length ?cs + 1) mod 4 = 0"
    by (simp add: b64_char_neq b64_char_not_pad b64_char_not_dot)
  then show ?case by (intro exI)
next
  case (4 a b c rest)
  then obtain cs k where r: "urlsafe_b64encode rest = cs @ replicate k 61" "k \<le> 2"
      "61 \<notin> set cs" "46 \<notin> set cs" "(length cs + k) mod 4 = 0"
    by (elim exE conjE)
  let ?q = "[b64_char (unat a div 4), b64_char (unat a mod 4 * 16 + unat b div 16),
      b64_char (unat b mod 16 * 4 + unat c div 64), b64_char (unat c mod 64)]"
  have q: "61 \<notin> set ?q" "46 \<notin> set ?q"
    by (simp_all add: b64_char_neq b64_char_not_pad b64_char_not_dot)
  have "urlsafe_b64encode (a # b # c # rest) = (?q @ cs) @ replicate k 61"
    using r(1) by simp
  moreover have "61 \<notin> set (?q @ cs)" "46 \<notin> set (?q @ cs)"
    using q r(3,4) by auto
  moreover have "(length (?q @ cs) + k) mod 4 = 0"
    using r(5) by simp
  ultimately have "urlsafe_b64encode (a # b # c # rest) = (?q @ cs) @ replicate k 61 \<and> k \<le> 2
      \<and> 61 \<notin> set (?q @ cs) \<and> 46 \<notin> set (?q @ cs) \<and> (length (?q @ cs) + k) mod 4 = 0"
    using r(2) by (intro conjI)
  then show ?case by (intro exI)
qed

lemma rstrip_pad_body:
  assumes "61 \<notin> set cs"
  shows "rstrip_pad (cs @ replicate k 61) = cs"
proof -
  have "dropWhile (\<lambda>c. c = 61) (replicate k 61 @ rev cs) = dropWhile (\<lambda>c. c = 61) (rev cs)"
    by (rule dropWhile_append2) simp
  moreover have "dropWhile (\<lambda>c. c = 61) (rev cs) = rev cs"
    using assms by (cases "rev cs") auto
  ultimately show ?thesis by (simp add: rstrip_pad_def)
qed

lemma pad_restores_padding:
  assumes "k \<le> 2" and "(length cs + k) mod 4 = 0"
  shows "pad_payload_part cs = cs @ replicate k (61::nat)"
proof -
  define m where "m = length cs mod 4"
  have m: "m < 4" by (simp add: m_def)
  have s: "(m + k) mod 4 = 0"
    using assms(2) by (simp add: m_def mod_add_left_eq)
  have m': "m = 0 \<or> m = 1 \<or> m = 2 \<or> m = 3"
    using m by linarith
  have k: "k = 0 \<or> k = 1 \<or> k = 2"
    using assms(1) by linarith
  from m' k s have "(4 - m) mod 4 = k"
    by (elim disjE) simp_all
  then have "(4 - length cs mod 4) mod 4 = k"
    by (simp add: m_def)
  then show ?thesis by (simp add: pad_payload_part_eq)
qed

lemma pad_rstrip_encode:
  "pad_payload_part (rstrip_pad (urlsafe_b64encode bs)) = urlsafe_b64encode bs"
proof -
  obtain cs k where r: "urlsafe_b64encode bs = cs @ replicate k 61" "k \<le> 2"
      "61 \<notin> set cs" "(length cs + k) mod 4 = 0"
    using urlsafe_b64encode_shape [of bs] by (elim exE conjE)
  show ?thesis
    by (simp add: r(1) rstrip_pad_body [OF r(3)] pad_restores_padding [OF r(2,4)])
qed

lemma rstrip_encode_no_dot: "46 \<notin> set (rstrip_pad (urlsafe_b64encode bs))"
proof -
  obtain cs k where r: "urlsafe_b64encode bs = cs @ replicate k 61"
      "61 \<notin> set cs" "46 \<notin> set cs"
    using urlsafe_b64encode_shape [of bs] by (elim exE conjE)
  show ?thesis
    by (simp add: r(1) rstrip_pad_body [OF r(2)] r(3))
qed

text \<open>
  C8: let \<open>bs\<close> be a serialisation of the JSON value \<open>j\<close>, that is bytes which the
  library decodes and parses back to \<open>j\<close>, and let the library's base64 decoder read
  the padded encoding of \<open>bs\<close> back as \<open>bs\<close>. Then the decoder, applied to the token
  whose middle part is the URL-safe base64 encoding of \<open>bs\<close> without its padding and
  whose other two parts have no dot, returns \<open>j\<close> and logs nothing.
\<close>

theorem decode_jwt_payload_roundtrip:
  assumes "urlsafe_b64decode L (urlsafe_b64encode bs) = Inr bs"
    and "bytes_decode_utf8 L bs = Inr text" and "json_loads L text = Inr j"
    and "chr_dot \<notin> set header_part" and "chr_dot \<notin> set signature_part"
  shows "decode_jwt_payload L
           (JStr (jwt header_part (rstrip_pad (urlsafe_b64encode bs)) signature_part)) =
         (Inr j, [])"
proof -
  let ?p = "rstrip_pad (urlsafe_b64encode bs)"
  have "str_split 46 (jwt header_part ?p signature_part) = [header_part, ?p, signature_part]"
    by (rule str_split_jwt [OF assms(4) rstrip_encode_no_dot assms(5)])
  then have "decode_jwt_payload_try L (JStr (jwt header_part ?p signature_part)) =
               (loads_payload L (pad_payload_part ?p), [])"
    by (rule decode_jwt_payload_try_three)
  also have "loads_payload L (pad_payload_part ?p) = Inr j"
    by (simp add: pad_rstrip_encode loads_payload_def assms(1,2,3))
  finally show ?thesis
    by (simp add: decode_jwt_payload_def)
qed

section \<open>The base64 functions of the library are inverse to each other\<close>

lemma a2b_base64_pad:
  "a2b_base64 (61 # rest) quad_pos leftchar pads bin_data =
     (if 2 \<le> quad_pos \<and> 4 \<le> quad_pos + (pads + 1) then Inr bin_data
      else a2b_base64 rest quad_pos leftchar (if 2 \<le> quad_pos then pads + 1 else pads) bin_data)"
  by simp

lemma a2b_base64_data:
  assumes "v < 64"
  shows "a2b_base64 (b64_char v # rest) quad_pos leftchar pads bin_data =
           (if quad_pos = 0 then a2b_base64 rest 1 v 0 bin_data
            else if quad_pos = 1 then
              a2b_base64 rest 2 (v mod 16) 0 (bin_data @ [of_nat (leftchar * 4 + v div 16)])
            else if quad_pos = 2 then
              a2b_base64 rest 3 (v mod 4) 0 (bin_data @ [of_nat (leftchar * 16 + v div 4)])
            else a2b_base64 rest 0 0 0 (bin_data @ [of_nat (leftchar * 64 + v)]))"
  using b64_char_not_pad [of v] by (simp add: b64_value_char [OF assms])

lemma div_of_digits: "q < n \<Longrightarrow> (p * n + q) div n = (p::nat)"
  by simp

lemma mod_of_digits: "q < n \<Longrightarrow> (p * n + q) mod n = (q::nat)"
  by simp

lemma byte_bounds:
  fixes a :: byte
  shows "unat a div 4 < 64" and "unat a div 16 < 16" and "unat a div 64 < 4"
proof -
  have "unat a < 256" using unsigned_less [of a] by simp
  then show "unat a div 4 < 64" and "unat a div 16 < 16" and "unat a div 64 < 4"
    by (simp_all add: div_less_iff_less_mult)
qed

lemma sextet_bound:
  fixes p q :: nat
  assumes "p < 4" and "q < 16"
  shows "p * 16 + q < 64"
  using assms by linarith

lemma sextet_bound':
  fixes p q :: nat
  assumes "p < 16" and "q < 4"
  shows "p * 4 + q < 64"
  using assms by linarith

lemma byte_sextets:
  fixes a b c :: byte
  shows "unat a div 4 < 64" and "unat a mod 4 * 16 + unat b div 16 < 64"
    and "unat b mod 16 * 4 + unat c div 64 < 64" and "unat c mod 64 < 64"
    and "unat a mod 4 * 16 < 64" and "unat b mod 16 * 4 < 64"
proof -
  show "unat a div 4 < 64" by (rule byte_bounds)
  show "unat a mod 4 * 16 + unat b div 16 < 64"
    by (rule sextet_bound) (simp_all add: byte_bounds)
  show "unat b mod 16 * 4 + unat c div 64 < 64"
    by (rule sextet_bound') (simp_all add: byte_bounds)
  show "unat c mod 64 < 64" by simp
  have "unat a mod 4 * 16 + 0 < 64"
    by (rule sextet_bound) simp_all
  then show "unat a mod 4 * 16 < 64" by simp
  have "unat b mod 16 * 4 + 0 < 64"
    by (rule sextet_bound') simp_all
  then show "unat b mod 16 * 4 < 64" by simp
qed

lemma byte_first:
  fixes a b :: byte
  shows "(of_nat (unat a div 4 * 4 + (unat a mod 4 * 16 + unat b div 16) div 16) :: byte) = a"
proof -
  have "(unat a mod 4 * 16 + unat b div 16) div 16 = unat a mod 4"
    by (rule div_of_digits) (rule byte_bounds)
  then have "unat a div 4 * 4 + (unat a mod 4 * 16 + unat b div 16) div 16 = unat a"
    by (simp only: div_mult_mod_eq)
  then show ?thesis by (simp only: of_nat_unat unsigned_word_eqI) simp
qed

lemma byte_first_last:
  fixes a :: byte
  shows "(of_nat (unat a div 4 * 4 + (unat a mod 4 * 16) div 16) :: byte) = a"
proof -
  have "(unat a mod 4 * 16 + 0) div 16 = unat a mod 4"
    by (rule div_of_digits) simp
  then have "(unat a mod 4 * 16) div 16 = unat a mod 4"
    by (simp only: add_0_right)
  then have "unat a div 4 * 4 + (unat a mod 4 * 16) div 16 = unat a"
    by (simp only: div_mult_mod_eq)
  then show ?thesis by (simp only: of_nat_unat) simp
qed

lemma byte_second:
  fixes a b c :: byte
  shows "(of_nat ((unat a mod 4 * 16 + unat b div 16) mod 16 * 16
            + (unat b mod 16 * 4 + unat c div 64) div 4) :: byte) = b"
proof -
  have "(unat a mod 4 * 16 + unat b div 16) mod 16 = unat b div 16"
    by (rule mod_of_digits) (rule byte_bounds)
  moreover have "(unat b mod 16 * 4 + unat c div 64) div 4 = unat b mod 16"
    by (rule div_of_digits) (rule byte_bounds)
  ultimately have "(unat a mod 4 * 16 + unat b div 16) mod 16 * 16
            + (unat b mod 16 * 4 + unat c div 64) div 4 = unat b"
    by (simp only: div_mult_mod_eq)
  then show ?thesis by (simp only: of_nat_unat) simp
qed

lemma byte_second_last:
  fixes a b :: byte
  shows "(of_nat ((unat a mod 4 * 16 + unat b div 16) mod 16 * 16
            + (unat b mod 16 * 4) div 4) :: byte) = b"
proof -
  have "(unat a mod 4 * 16 + unat b div 16) mod 16 = unat b div 16"
    by (rule mod_of_digits) (rule byte_bounds)
  moreover have "(unat b mod 16 * 4 + 0) div 4 = unat b mod 16"
    by (rule div_of_digits) simp
  then have "(unat b mod 16 * 4) div 4 = unat b mod 16"
    by (simp only: add_0_right)
  ultimately have "(unat a mod 4 * 16 + unat b div 16) mod 16 * 16 + (unat b mod 16 * 4) div 4 = unat b"
    by (simp only: div_mult_mod_eq)
  then show ?thesis by (simp only: of_nat_unat) simp
qed

lemma byte_third:
  fixes b c :: byte
  shows "(of_nat ((unat b mod 16 * 4 + unat c div 64) mod 4 * 64 + unat c mod 64) :: byte) = c"
proof -
  have "(unat b mod 16 * 4 + unat c div 64) mod 4 = unat c div 64"
    by (rule mod_of_digits) (rule byte_bounds)
  then have "(unat b mod 16 * 4 + unat c div 64) mod 4 * 64 + unat c mod 64 = unat c"
    by (simp only: div_mult_mod_eq)
  then show ?thesis by (simp only: of_nat_unat) simp
qed

lemma a2b_base64_quad:
  assumes "v0 < 64" and "v1 < 64" and "v2 < 64" and "v3 < 64"
  shows "a2b_base64 (b64_char v0 # b64_char v1 # b64_char v2 # b64_char v3 # rest) 0 0 0 bin_data =
           a2b_base64 rest 0 0 0
             (bin_data @ [of_nat (v0 * 4 + v1 div 16), of_nat (v1 mod 16 * 16 + v2 div 4),
                          of_nat (v2 mod 4 * 64 + v3)])"
  by (simp add: a2b_base64_data assms del: a2b_base64.simps(2))

lemma a2b_base64_pair:
  assumes "v0 < 64" and "v1 < 64"
  shows "a2b_base64 [b64_char v0, b64_char v1, 61, 61] 0 0 0 bin_data =
           Inr (bin_data @ [of_nat (v0 * 4 + v1 div 16)])"
  by (simp add: a2b_base64_data a2b_base64_pad assms del: a2b_base64.simps(2))

lemma a2b_base64_triple:
  assumes "v0 < 64" and "v1 < 64" and "v2 < 64"
  shows "a2b_base64 [b64_char v0, b64_char v1, b64_char v2, 61] 0 0 0 bin_data =
           Inr (bin_data @ [of_nat (v0 * 4 + v1 div 16), of_nat (v1 mod 16 * 16 + v2 div 4)])"
  by (simp add: a2b_base64_data a2b_base64_pad assms del: a2b_base64.simps(2))

lemma a2b_base64_encode:
  "a2b_base64 (urlsafe_b64encode bs) 0 0 0 bin_data = Inr (bin_data @ bs)"
proof (induction bs arbitrary: bin_data rule: urlsafe_b64encode.induct)
  case 1
  show ?case by simp
next
  case (2 a)
  have "a2b_base64 (urlsafe_b64encode [a]) 0 0 0 bin_data =
          Inr (bin_data @ [of_nat (unat a div 4 * 4 + (unat a mod 4 * 16) div 16)])"
    unfolding urlsafe_b64encode.simps by (rule a2b_base64_pair) (rule byte_sextets)+
  then show ?case by (simp only: byte_first_last)
next
  case (3 a b)
  have "a2b_base64 (urlsafe_b64encode [a, b]) 0 0 0 bin_data =
          Inr (bin_data @ [of_nat (unat a div 4 * 4 + (unat a mod 4 * 16 + unat b div 16) div 16),
                 of_nat ((unat a mod 4 * 16 + unat b div 16) mod 16 * 16 + (unat b mod 16 * 4) div 4)])"
    unfolding urlsafe_b64encode.simps by (rule a2b_base64_triple) (rule byte_sextets)+
  then show ?case by (simp only: byte_first byte_second_last)
next
  case (4 a b c rest)
  have "a2b_base64 (urlsafe_b64encode (a # b # c # rest)) 0 0 0 bin_data =
          a2b_base64 (urlsafe_b64encode rest) 0 0 0
            (bin_data @ [of_nat (unat a div 4 * 4 + (unat a mod 4 * 16 + unat b div 16) div 16),
               of_nat ((unat a mod 4 * 16 + unat b div 16) mod 16 * 16
                 + (unat b mod 16 * 4 + unat c div 64) div 4),
               of_nat ((unat b mod 16 * 4 + unat c div 64) mod 4 * 64 + unat c mod 64)])"
    unfolding urlsafe_b64encode.simps append.simps
    by (rule a2b_base64_quad) (rule byte_sextets)+
  also have "\<dots> = a2b_base64 (urlsafe_b64encode rest) 0 0 0 (bin_data @ [a, b, c])"
    by (simp only: byte_first byte_second byte_third)
  also have "\<dots> = Inr ((bin_data @ [a, b, c]) @ rest)"
    by (rule "4.IH")
  finally show ?case by simp
qed

lemma urlsafe_b64encode_ascii: "\<not> list_ex (\<lambda>c. 128 \<le> c) (urlsafe_b64encode bs)"
proof (induction bs rule: urlsafe_b64encode.induct)
  case 1
  show ?case by simp
next
  case (2 a)
  show ?case using b64_char_ascii by (simp add: not_le)
next
  case (3 a b)
  show ?case using b64_char_ascii by (simp add: not_le)
next
  case (4 a b c rest)
  then show ?case using b64_char_ascii by (simp add: not_le)
qed

lemma py_urlsafe_b64decode_encode:
  "py_urlsafe_b64decode (urlsafe_b64encode bs) = Inr bs"
  by (simp add: py_urlsafe_b64decode_def urlsafe_b64encode_ascii a2b_base64_encode)

lemma cpython_b64_inverse:
  "urlsafe_b64decode cpython (urlsafe_b64encode bs) = Inr bs"
  by (simp add: cpython_def py_urlsafe_b64decode_encode)

theorem decode_jwt_payload_roundtrip_witness:
  "urlsafe_b64decode cpython (urlsafe_b64encode (ascii_bytes groups_payload_text)) =
     Inr (ascii_bytes groups_payload_text)
   \<and> bytes_decode_utf8 cpython (ascii_bytes groups_payload_text) = Inr groups_payload_text
   \<and> json_loads cpython groups_payload_text =
       Inr (JObj [(lit ''cognito:groups'', JList [JStr (lit ''Admin''), JStr (lit ''X'')])])
   \<and> 46 \<notin> set (lit ''h'') \<and> 46 \<notin> set (lit ''s'')
   \<and> rstrip_pad (urlsafe_b64encode (ascii_bytes groups_payload_text)) =
       lit ''eyJjb2duaXRvOmdyb3VwcyI6IFsiQWRtaW4iLCAiWCJdfQ''
   \<and> decode_jwt_payload cpython
        (JStr (jwt (lit ''h'') (rstrip_pad (urlsafe_b64encode (ascii_bytes groups_payload_text)))
           (lit ''s''))) =
       (Inr (JObj [(lit ''cognito:groups'', JList [JStr (lit ''Admin''), JStr (lit ''X'')])]), [])"
proof -
  let ?bs = "ascii_bytes groups_payload_text"
  let ?j = "JObj [(lit ''cognito:groups'', JList [JStr (lit ''Admin''), JStr (lit ''X'')])]"
  have a: "urlsafe_b64decode cpython (urlsafe_b64encode ?bs) = Inr ?bs"
    by (rule cpython_b64_inverse)
  have b: "bytes_decode_utf8 cpython ?bs = Inr groups_payload_text"
    by (simp add: cpython_def py_bytes_decode_utf8_def ascii_bytes_def groups_payload_text_def
          lit_def)
  have c: "json_loads cpython groups_payload_text = Inr ?j"
    by (simp add: cpython_def json_loads_at_def json_loads_table_def groups_payload_text_def
          lit_def)
  have d: "46 \<notin> set (lit ''h'')" "46 \<notin> set (lit ''s'')"
    by (simp_all add: lit_def)
  have e: "rstrip_pad (urlsafe_b64encode ?bs) = lit ''eyJjb2duaXRvOmdyb3VwcyI6IFsiQWRtaW4iLCAiWCJdfQ''"
    by (simp add: rstrip_pad_def ascii_bytes_def groups_payload_text_def lit_def b64_char_def)
  from decode_jwt_payload_roundtrip [OF a b c d]
  have f: "decode_jwt_payload cpython (JStr (jwt (lit ''h'') (rstrip_pad (urlsafe_b64encode ?bs))
             (lit ''s''))) = (Inr ?j, [])" .
  from a b c d e f show ?thesis by (intro conjI)
qed

end
